theory Spec2Isabelle
  imports Complex_Main "HOL-Library.Multiset" "HOL-Library.Code_Target_Numeral"
begin

section \<open>JavaScript numbers\<close>

text \<open>
  Every \<open>number\<close> of the TypeScript sources is an IEEE 754 double. A finite double is
  represented by the rational it denotes (\<open>-0\<close> and \<open>0\<close>, which JavaScript's comparisons
  do not tell apart, are one value); the two infinities and NaN are values of their own.
  \<open>pow2 e\<close> is \<open>2^e\<close> for an integer \<open>e\<close>.
\<close>

datatype number = Fin rat | PInf | NInf | NaN

definition pow2 :: "int \<Rightarrow> rat" where
  "pow2 e = (if 0 \<le> e then 2 ^ nat e else 1 / 2 ^ nat (- e))"

text \<open>Rounding to the nearest integer, a tie going to the even neighbour.\<close>

definition round_half_even :: "rat \<Rightarrow> int" where
  "round_half_even r =
     (let f = \<lfloor>r\<rfloor>; d = r - of_int f
      in if d < 1 / 2 then f else if 1 / 2 < d then f + 1 else if even f then f else f + 1)"

text \<open>
  The doubles are the multiples \<open>m * 2^e\<close> with \<open>\<bar>m\<bar> < 2^53\<close> and
  \<open>-1074 \<le> e \<le> 971\<close>. For \<open>x > 0\<close>, \<open>double_exponent x\<close> is the least such \<open>e\<close> with
  \<open>x < 2^(e + 53)\<close>: the spacing of the doubles around \<open>x\<close> is \<open>2^e\<close>. There is none
  when \<open>x \<ge> 2^1024\<close>.
\<close>

definition double_exponent :: "rat \<Rightarrow> int option" where
  "double_exponent x = find (\<lambda>e. x < pow2 (e + 53)) [- 1074..971]"

text \<open>
  The result of an arithmetic operation is its exact result rounded to the nearest
  double, ties to even; what rounds to \<open>2^1024\<close> or beyond is an infinity.
  \<open>round_pos\<close> rounds a positive rational (\<open>None\<close> on overflow).
\<close>

definition round_pos :: "rat \<Rightarrow> rat option" where
  "round_pos x =
     (case double_exponent x of
        None \<Rightarrow> None
      | Some e \<Rightarrow>
          let y = of_int (round_half_even (x / pow2 e)) * pow2 e
          in if y < pow2 1024 then Some y else None)"

definition round_double :: "rat \<Rightarrow> number" where
  "round_double x =
     (if x = 0 then Fin 0
      else if 0 < x then (case round_pos x of Some y \<Rightarrow> Fin y | None \<Rightarrow> PInf)
      else (case round_pos (- x) of Some y \<Rightarrow> Fin (- y) | None \<Rightarrow> NInf))"

text \<open>The operators \<open>+\<close>, unary \<open>-\<close>, binary \<open>-\<close> and \<open>*\<close> on numbers.\<close>

fun js_add :: "number \<Rightarrow> number \<Rightarrow> number" where
  "js_add (Fin a) (Fin b) = round_double (a + b)"
| "js_add NaN b = NaN"
| "js_add a NaN = NaN"
| "js_add PInf NInf = NaN"
| "js_add NInf PInf = NaN"
| "js_add PInf b = PInf"
| "js_add a PInf = PInf"
| "js_add NInf b = NInf"
| "js_add a NInf = NInf"

fun js_neg :: "number \<Rightarrow> number" where
  "js_neg (Fin a) = Fin (- a)"
| "js_neg PInf = NInf"
| "js_neg NInf = PInf"
| "js_neg NaN = NaN"

definition js_sub :: "number \<Rightarrow> number \<Rightarrow> number" where
  "js_sub a b = js_add a (js_neg b)"

text \<open>The sign of a number other than NaN, for the product with an infinity.\<close>

fun js_sign :: "number \<Rightarrow> int" where
  "js_sign (Fin a) = (if 0 < a then 1 else if a < 0 then - 1 else 0)"
| "js_sign PInf = 1"
| "js_sign NInf = - 1"
| "js_sign NaN = 0"

fun js_mul :: "number \<Rightarrow> number \<Rightarrow> number" where
  "js_mul (Fin a) (Fin b) = round_double (a * b)"
| "js_mul NaN b = NaN"
| "js_mul a NaN = NaN"
| "js_mul a b =
     (if js_sign a * js_sign b = 0 then NaN
      else if 0 < js_sign a * js_sign b then PInf else NInf)"

text \<open>
  \<open>xs.reduce((acc, x) => acc + f(x), 0)\<close>: the numbers are added from left to right,
  starting from 0, each sum rounded.
\<close>

definition js_sum :: "number list \<Rightarrow> number" where
  "js_sum xs = foldl js_add (Fin 0) xs"

text \<open>
  The rational a finite number denotes (0 for the others), and the numbers that are
  integers.
\<close>

fun num_val :: "number \<Rightarrow> rat" where
  "num_val (Fin a) = a"
| "num_val PInf = 0"
| "num_val NInf = 0"
| "num_val NaN = 0"

fun is_whole :: "number \<Rightarrow> bool" where
  "is_whole (Fin a) = (a = of_int \<lfloor>a\<rfloor>)"
| "is_whole PInf = False"
| "is_whole NInf = False"
| "is_whole NaN = False"

text \<open>
  Whole numbers whose absolute values add up to less than \<open>2^53\<close>: every sum of some of
  them is a safe integer (\<open>Number.MAX_SAFE_INTEGER\<close> is \<open>2^53 - 1\<close>).
\<close>

definition whole_in_safe_range :: "number list \<Rightarrow> bool" where
  "whole_in_safe_range xs =
     (list_all is_whole xs \<and> sum_list (map (\<lambda>x. \<bar>num_val x\<bar>) xs) < 2 ^ 53)"

section \<open>Data model (src/types/db.ts)\<close>

text \<open>
  The rows of the three tables, as \<^verbatim>\<open>src/types/db.ts\<close> declares them. Prices,
  quantities and totals are JavaScript numbers. Row ids are only compared, and are
  integers. Timestamps (\<open>sold_at\<close>, \<open>bought_at\<close>, \<open>created_at\<close>) are the millisecond
  values that \<open>new Date(s)\<close> and \<open>parseISO(s)\<close> read from the stored ISO strings,
  shifted to the browser's local time line (a fixed offset from UTC), so that local
  midnight of calendar day \<open>d\<close> is \<open>d * msPerDay\<close>.
\<close>

datatype sale_status = lunas | belum_bayar

record StockItem =
  stock_id :: int
  name :: string
  price :: number
  stock :: number
  image_url :: "string option"
  created_at :: int

record Sale =
  sale_id :: int
  sold_at :: int
  stock_item_id :: "int option"
  item_name :: string
  unit_price :: number
  qty :: number
  total_price :: number
  buyer_name :: "string option"
  status :: sale_status

record Expense =
  expense_id :: int
  bought_at :: int
  description :: "string option"
  total_cost :: number

record DashboardMetrics =
  totalSales :: int
  totalRevenue :: number
  totalExpenses :: number
  profit :: number
  piutang :: number

section \<open>Metrics aggregation (src/app/dashboard/page.tsx)\<close>

text \<open>
  \<open>Array.prototype.reduce(f, 0)\<close> is a left fold from 0; \<open>sales.length\<close> is a count.
  \<open>metrics\<close> is the \<open>useMemo\<close> of \<open>HomePage\<close> (lines 264-278).
\<close>

definition metrics :: "Sale list \<Rightarrow> Expense list \<Rightarrow> DashboardMetrics" where
  "metrics sales expenses =
     (let totalSales' = int (length sales);
          totalRevenue' = foldl (\<lambda>acc item. js_add acc (total_price item)) (Fin 0) sales;
          totalExpenses' = foldl (\<lambda>acc item. js_add acc (total_cost item)) (Fin 0) expenses;
          piutang' = foldl (\<lambda>acc item. js_add acc (total_price item)) (Fin 0)
                       (filter (\<lambda>s. status s = belum_bayar) sales)
      in \<lparr>totalSales = totalSales',
          totalRevenue = totalRevenue',
          totalExpenses = totalExpenses',
          profit = js_sub totalRevenue' totalExpenses',
          piutang = piutang'\<rparr>)"

text \<open>
  \<open>section_metrics\<close> is the \<open>useMemo\<close> of \<open>DashboardSection\<close> (lines 1427-1455), which is
  handed the unfiltered \<open>sales\<close> and \<open>expenses\<close> of \<open>HomePage\<close>. The cutoff is \<open>None\<close>
  for the filter "all" and otherwise the instant date-fns computes from the wall clock
  (\<open>startOfWeek\<close>, \<open>startOfMonth\<close>, \<open>startOfYear\<close>); it is taken as an argument.
\<close>

definition section_metrics :: "int option \<Rightarrow> Sale list \<Rightarrow> Expense list \<Rightarrow> DashboardMetrics" where
  "section_metrics cutoff sales expenses =
     (let fSales = (case cutoff of
                      Some c \<Rightarrow> filter (\<lambda>s. sold_at s \<ge> c) sales
                    | None \<Rightarrow> sales);
          fExpenses = (case cutoff of
                         Some c \<Rightarrow> filter (\<lambda>e. bought_at e \<ge> c) expenses
                       | None \<Rightarrow> expenses);
          totalSales' = int (length fSales);
          totalRevenue' = foldl (\<lambda>acc item. js_add acc (total_price item)) (Fin 0) fSales;
          totalExpenses' = foldl (\<lambda>acc item. js_add acc (total_cost item)) (Fin 0) fExpenses;
          piutang' = foldl (\<lambda>acc item. js_add acc (total_price item)) (Fin 0)
                       (filter (\<lambda>s. status s = belum_bayar) fSales)
      in \<lparr>totalSales = totalSales',
          totalRevenue = totalRevenue',
          totalExpenses = totalExpenses',
          profit = js_sub totalRevenue' totalExpenses',
          piutang = piutang'\<rparr>)"

section \<open>Range filter (filteredSales, filteredExpenses)\<close>

definition msPerDay :: int where
  "msPerDay = 86400000"

text \<open>
  \<open>new Date(`${d}T00:00:00`)\<close> and \<open>new Date(`${d}T23:59:59`)\<close>: a date-time string
  without zone is read as local time. \<open>local_datetime d h m s\<close> is the instant of
  \<open>h:m:s.000\<close> on calendar day \<open>d\<close> (days counted on the local time line).
\<close>

definition local_datetime :: "int \<Rightarrow> int \<Rightarrow> int \<Rightarrow> int \<Rightarrow> int" where
  "local_datetime d h m s = d * msPerDay + ((h * 60 + m) * 60 + s) * 1000"

definition filteredSales :: "int \<Rightarrow> int \<Rightarrow> Sale list \<Rightarrow> Sale list" where
  "filteredSales fromDate toDate sales =
     (let start = local_datetime fromDate 0 0 0;
          end' = local_datetime toDate 23 59 59
      in filter (\<lambda>sale. let soldDate = sold_at sale
                         in soldDate \<ge> start \<and> soldDate \<le> end') sales)"

definition filteredExpenses :: "int \<Rightarrow> int \<Rightarrow> Expense list \<Rightarrow> Expense list" where
  "filteredExpenses fromDate toDate expenses =
     (let start = local_datetime fromDate 0 0 0;
          end' = local_datetime toDate 23 59 59
      in filter (\<lambda>expense. let boughtDate = bought_at expense
                            in boughtDate \<ge> start \<and> boughtDate \<le> end') expenses)"

section \<open>Extended ledger export (exportExcel, exportPdf)\<close>

text \<open>
  \<open>exportExcel\<close> (lines 745-768) and \<open>exportPdf\<close> (lines 806-817) begin with the same
  six bindings over \<open>filteredSales\<close> and \<open>filteredExpenses\<close>, and print them on the lines
  "Total Penjualan" (a count), "Penjualan", "Total Modal", "Pengeluaran" and
  "Pendapatan Bersih". \<open>LedgerHeader\<close> holds the numbers those lines show.
\<close>

record LedgerHeader =
  total_penjualan :: int
  penjualan :: number
  total_modal :: number
  pengeluaran :: number
  pendapatan_bersih :: number

definition ledger_header :: "Sale list \<Rightarrow> Expense list \<Rightarrow> LedgerHeader" where
  "ledger_header fSales fExpenses =
     (let modalSales = filter (\<lambda>s. item_name s = ''Modal / Dana Awal'') fSales;
          actualSales = filter (\<lambda>s. item_name s \<noteq> ''Modal / Dana Awal'') fSales;
          totalRevenue' = foldl (\<lambda>a s. js_add a (total_price s)) (Fin 0) actualSales;
          totalModal = foldl (\<lambda>a s. js_add a (total_price s)) (Fin 0) modalSales;
          totalExpense = foldl (\<lambda>a e. js_add a (total_cost e)) (Fin 0) fExpenses;
          pendapatan = js_sub totalRevenue' totalExpense
      in \<lparr>total_penjualan = int (length actualSales),
          penjualan = totalRevenue',
          total_modal = totalModal,
          pengeluaran = totalExpense,
          pendapatan_bersih = pendapatan\<rparr>)"

definition exportExcel :: "int \<Rightarrow> int \<Rightarrow> Sale list \<Rightarrow> Expense list \<Rightarrow> LedgerHeader" where
  "exportExcel fromDate toDate sales expenses =
     ledger_header (filteredSales fromDate toDate sales) (filteredExpenses fromDate toDate expenses)"

definition exportPdf :: "int \<Rightarrow> int \<Rightarrow> Sale list \<Rightarrow> Expense list \<Rightarrow> LedgerHeader" where
  "exportPdf fromDate toDate sales expenses =
     ledger_header (filteredSales fromDate toDate sales) (filteredExpenses fromDate toDate expenses)"

section \<open>Daily time series (chartData)\<close>

text \<open>
  The date-fns functions on the local time line: \<open>startOfDay\<close> truncates to local
  midnight, \<open>subDays\<close> goes back whole days, and \<open>format(t, "yyyy-MM-dd")\<close> names the
  calendar day of \<open>t\<close>. The key string "yyyy-MM-dd" is represented by the number of that
  day, which it determines and is determined by.
\<close>

definition startOfDay :: "int \<Rightarrow> int" where
  "startOfDay t = (t div msPerDay) * msPerDay"

definition subDays :: "int \<Rightarrow> int \<Rightarrow> int" where
  "subDays t n = t - n * msPerDay"

definition format_ymd :: "int \<Rightarrow> int" where
  "format_ymd t = t div msPerDay"

text \<open>
  A JavaScript \<open>Map\<close> keeps its entries in insertion order: \<open>set\<close> on a key that is
  present replaces the value in place, \<open>set\<close> on a new key appends an entry.
\<close>

fun map_set :: "'k \<Rightarrow> 'v \<Rightarrow> ('k \<times> 'v) list \<Rightarrow> ('k \<times> 'v) list" where
  "map_set k v [] = [(k, v)]"
| "map_set k v ((k', v') # m) =
     (if k' = k then (k', v) # m else (k', v') # map_set k v m)"

fun map_get :: "('k \<times> 'v) list \<Rightarrow> 'k \<Rightarrow> 'v option" where
  "map_get [] k = None"
| "map_get ((k', v') # m) k = (if k' = k then Some v' else map_get m k)"

text \<open>
  A row of the chart. \<open>day\<close> is the calendar day of the entry (the key of the map), from
  which the label \<open>format(parseISO(day), "dd/MM")\<close> is printed.
\<close>

record ChartRow =
  day :: int
  day_amount :: number

text \<open>
  The callback of \<open>sales.forEach\<close> in \<open>chartData\<close>, as a function of the map it
  updates: a sale sold before \<open>start\<close> is skipped, any other sale is added under the key
  of its day.
\<close>

definition chart_add_sale ::
  "int \<Rightarrow> (int \<times> number) list \<Rightarrow> Sale \<Rightarrow> (int \<times> number) list" where
  "chart_add_sale start dailyMap sale =
     (let soldDate = sold_at sale
      in if soldDate < start then dailyMap
         else (let key = format_ymd soldDate
               in map_set key
                    (js_add (case map_get dailyMap key of Some v \<Rightarrow> v | None \<Rightarrow> Fin 0)
                       (total_price sale)) dailyMap))"

text \<open>
  \<open>chartData\<close> (lines 280-300); \<open>now\<close> is the value of \<open>new Date()\<close>, read once.
\<close>

definition chartData :: "int \<Rightarrow> Sale list \<Rightarrow> ChartRow list" where
  "chartData now sales =
     (let start = startOfDay (subDays now 29);
          dailyMap0 = foldl (\<lambda>m i. map_set (format_ymd (subDays now (29 - i))) (Fin 0) m) []
                        [0..29];
          dailyMap = foldl (chart_add_sale start) dailyMap0 sales
      in map (\<lambda>(d, a). \<lparr>day = d, day_amount = a\<rparr>) dailyMap)"

section \<open>Merged transaction feed (IncomeSection.transactions)\<close>

datatype tx_type = TxSale | TxExpense

record Transaction =
  tx_type :: tx_type
  tx_id :: string
  numericId :: int
  date :: int
  tx_name :: string
  tx_qty :: "number option"
  tx_amount :: number
  unitPrice :: "number option"
  detail :: "string option"
  tx_status :: "sale_status option"
  stockItemId :: "int option"

text \<open>The decimal rendering of a number inside a template string.\<close>

fun digits_of_nat :: "nat \<Rightarrow> string" where
  "digits_of_nat n =
     (if n < 10 then [char_of (48 + n)]
      else digits_of_nat (n div 10) @ [char_of (48 + n mod 10)])"

definition string_of_int :: "int \<Rightarrow> string" where
  "string_of_int i = (if i < 0 then CHR ''-'' # digits_of_nat (nat (- i)) else digits_of_nat (nat i))"

definition sale_tx :: "Sale \<Rightarrow> Transaction" where
  "sale_tx s =
     \<lparr>tx_type = TxSale,
      tx_id = ''sale-'' @ string_of_int (sale_id s),
      numericId = sale_id s,
      date = sold_at s,
      tx_name = item_name s,
      tx_qty = Some (qty s),
      tx_amount = total_price s,
      unitPrice = Some (unit_price s),
      detail = buyer_name s,
      tx_status = Some (status s),
      stockItemId = stock_item_id s\<rparr>"

definition expense_tx :: "Expense \<Rightarrow> Transaction" where
  "expense_tx e =
     \<lparr>tx_type = TxExpense,
      tx_id = ''expense-'' @ string_of_int (expense_id e),
      numericId = expense_id e,
      date = bought_at e,
      tx_name = (case description e of Some d \<Rightarrow> d | None \<Rightarrow> ''Pengeluaran''),
      tx_qty = None,
      tx_amount = total_cost e,
      unitPrice = None,
      detail = None,
      tx_status = None,
      stockItemId = None\<rparr>"

text \<open>
  \<open>Array.prototype.sort\<close> is a stable sort (ECMAScript 2019). With the comparator
  \<open>(a, b) => time(b.date) - time(a.date)\<close> it orders by descending date and keeps the
  input order of entries with equal dates. \<open>sort_key\<close> is the stable insertion sort of
  the list library, here on the negated date.
\<close>

definition transactions :: "Sale list \<Rightarrow> Expense list \<Rightarrow> Transaction list" where
  "transactions sales expenses =
     (let combined = map sale_tx sales @ map expense_tx expenses
      in sort_key (\<lambda>t. - date t) combined)"

section \<open>Snapshot loader (loadAll)\<close>

text \<open>
  The rows as the remote store returns them: the numeric columns arrive as values of
  some type \<open>'n\<close> (numbers, strings or null) and are coerced by \<open>toNumber\<close> of
  \<^verbatim>\<open>src/lib/format.ts\<close>, whose source is not available; \<open>toNumber\<close> is therefore an
  argument of \<open>loadAll\<close>.
\<close>

record 'n RawStockItem =
  raw_stock_id :: int
  raw_name :: string
  raw_price :: 'n
  raw_stock :: 'n
  raw_image_url :: "string option"
  raw_created_at :: int

record 'n RawSale =
  raw_sale_id :: int
  raw_sold_at :: int
  raw_stock_item_id :: "int option"
  raw_item_name :: string
  raw_unit_price :: 'n
  raw_qty :: 'n
  raw_total_price :: 'n
  raw_buyer_name :: "string option"
  raw_status :: sale_status

record 'n RawExpense =
  raw_expense_id :: int
  raw_bought_at :: int
  raw_description :: "string option"
  raw_total_cost :: 'n

text \<open>
  The result of one request: \<open>{ data, error }\<close>. \<open>res_error\<close> is the \<open>message\<close> of the
  error object when there is one.
\<close>

record 'a Response =
  res_data :: "'a option"
  res_error :: "string option"

text \<open>The part of the component state that \<open>loadAll\<close> writes.\<close>

record AppState =
  st_loading :: bool
  st_error :: "string option"
  st_stockItems :: "StockItem list"
  st_sales :: "Sale list"
  st_expenses :: "Expense list"

definition parse_stock :: "('n \<Rightarrow> number) \<Rightarrow> 'n RawStockItem \<Rightarrow> StockItem" where
  "parse_stock toNumber item =
     \<lparr>stock_id = raw_stock_id item, name = raw_name item,
      price = toNumber (raw_price item), stock = toNumber (raw_stock item),
      image_url = raw_image_url item, created_at = raw_created_at item\<rparr>"

definition parse_sale :: "('n \<Rightarrow> number) \<Rightarrow> 'n RawSale \<Rightarrow> Sale" where
  "parse_sale toNumber item =
     \<lparr>sale_id = raw_sale_id item, sold_at = raw_sold_at item,
      stock_item_id = raw_stock_item_id item, item_name = raw_item_name item,
      unit_price = toNumber (raw_unit_price item), qty = toNumber (raw_qty item),
      total_price = toNumber (raw_total_price item),
      buyer_name = raw_buyer_name item, status = raw_status item\<rparr>"

definition parse_expense :: "('n \<Rightarrow> number) \<Rightarrow> 'n RawExpense \<Rightarrow> Expense" where
  "parse_expense toNumber item =
     \<lparr>expense_id = raw_expense_id item, bought_at = raw_bought_at item,
      description = raw_description item, total_cost = toNumber (raw_total_cost item)\<rparr>"

text \<open>
  \<open>loadAll\<close> (lines 187-240). The three responses of \<open>Promise.all\<close> are arguments: they
  come from the remote store. \<open>a ?? b\<close> is \<open>a\<close> unless \<open>a\<close> is null or undefined.
\<close>

definition loadAll ::
  "bool \<Rightarrow> ('n \<Rightarrow> number) \<Rightarrow> 'n RawStockItem list Response \<Rightarrow> 'n RawSale list Response
     \<Rightarrow> 'n RawExpense list Response \<Rightarrow> AppState \<Rightarrow> AppState" where
  "loadAll hasSupabaseEnv toNumber stockRes salesRes expensesRes st =
     (if \<not> hasSupabaseEnv then st\<lparr>st_loading := False\<rparr>
      else
        let st1 = st\<lparr>st_error := None\<rparr>
        in if res_error stockRes \<noteq> None \<or> res_error salesRes \<noteq> None
                \<or> res_error expensesRes \<noteq> None
           then st1\<lparr>st_error := Some
                        (case res_error stockRes of Some m \<Rightarrow> m
                         | None \<Rightarrow> (case res_error salesRes of Some m \<Rightarrow> m
                           | None \<Rightarrow> (case res_error expensesRes of Some m \<Rightarrow> m
                             | None \<Rightarrow> ''Failed loading data''))),
                    st_loading := False\<rparr>
           else
             let parsedStock =
                   filter (\<lambda>item. name item \<noteq> ''SYSTEM_MODAL_DONOTDELETE'')
                     (map (parse_stock toNumber)
                        (case res_data stockRes of Some d \<Rightarrow> d | None \<Rightarrow> []));
                 parsedSales =
                   map (parse_sale toNumber)
                     (case res_data salesRes of Some d \<Rightarrow> d | None \<Rightarrow> []);
                 parsedExpenses =
                   map (parse_expense toNumber)
                     (case res_data expensesRes of Some d \<Rightarrow> d | None \<Rightarrow> [])
             in st1\<lparr>st_stockItems := parsedStock, st_sales := parsedSales,
                    st_expenses := parsedExpenses, st_loading := False\<rparr>)"

section \<open>The tables as the client reads and writes them\<close>

text \<open>
  The tables \<open>stock_items\<close> and \<open>sales\<close> as the client sees them through the store's
  interface: lists of rows whose numeric columns are the JavaScript numbers it sends
  and receives, and the last value of the sequence that numbers new rows of each. The
  table declarations (\<^verbatim>\<open>supabase/schema.sql\<close>) are not available; column constraints
  they may add are not modelled.
\<close>

record Database =
  tbl_stock_items :: "StockItem list"
  tbl_sales :: "Sale list"
  stock_id_seq :: int
  sales_id_seq :: int

section \<open>Capital entry (getSystemModalId, handleSubmitModal)\<close>

text \<open>
  \<open>getSystemModalId\<close> (lines 152-185). \<open>.single()\<close> yields the row when exactly one row
  matches and no data otherwise. \<open>insertError\<close> is the error of the remote insert, if
  it fails; \<open>now\<close> stands for the default of \<open>created_at\<close>.
\<close>

definition getSystemModalId ::
  "bool \<Rightarrow> int \<Rightarrow> string option \<Rightarrow> Database \<Rightarrow> Database \<times> int option" where
  "getSystemModalId hasSupabaseEnv now insertError db =
     (if \<not> hasSupabaseEnv then (db, None)
      else
        case filter (\<lambda>r. name r = ''SYSTEM_MODAL_DONOTDELETE'') (tbl_stock_items db) of
          [existing] \<Rightarrow> (db, Some (stock_id existing))
        | _ \<Rightarrow>
            (case insertError of
               Some e \<Rightarrow> (db, None)
             | None \<Rightarrow>
                 let created =
                       \<lparr>stock_id = stock_id_seq db + 1,
                        name = ''SYSTEM_MODAL_DONOTDELETE'',
                        price = Fin 0, stock = Fin 0, image_url = None, created_at = now\<rparr>
                 in (db\<lparr>tbl_stock_items := tbl_stock_items db @ [created],
                        stock_id_seq := stock_id_seq db + 1\<rparr>,
                     Some (stock_id created))))"

text \<open>\<open>Number.isFinite\<close>, and \<open>a <= b\<close> on numbers (false whenever one side is NaN).\<close>

fun is_finite :: "number \<Rightarrow> bool" where
  "is_finite (Fin a) = True"
| "is_finite PInf = False"
| "is_finite NInf = False"
| "is_finite NaN = False"

fun js_le :: "number \<Rightarrow> number \<Rightarrow> bool" where
  "js_le (Fin a) (Fin b) = (a \<le> b)"
| "js_le NaN b = False"
| "js_le a NaN = False"
| "js_le NInf b = True"
| "js_le a PInf = True"
| "js_le PInf b = False"
| "js_le a NInf = False"

text \<open>
  \<open>handleSubmitModal\<close> (lines 447-494). \<open>amount\<close> is \<open>Number(modalAmount)\<close>; \<open>modalDate\<close>
  is the instant entered in the form. The result is the database after the call and
  the message passed to \<open>setError\<close>, if any.
\<close>

definition handleSubmitModal ::
  "bool \<Rightarrow> int \<Rightarrow> number \<Rightarrow> int \<Rightarrow> string option \<Rightarrow> string option \<Rightarrow> Database
     \<Rightarrow> Database \<times> string option" where
  "handleSubmitModal hasSupabaseEnv now amount modalDate stockInsertError insertError db =
     (if \<not> hasSupabaseEnv then (db, Some ''Supabase environment variables not configured.'')
      else if \<not> is_finite amount \<or> js_le amount (Fin 0)
      then (db, Some ''Jumlah modal harus lebih dari 0.'')
      else
        (case getSystemModalId hasSupabaseEnv now stockInsertError db of
           (db1, None) \<Rightarrow>
             (db1, Some ''Gagal inisialisasi system item. Cek koneksi Supabase.'')
         | (db1, Some modalStockId) \<Rightarrow>
             (case insertError of
                Some msg \<Rightarrow> (db1, Some msg)
              | None \<Rightarrow>
                  (db1\<lparr>tbl_sales := tbl_sales db1 @
                          [\<lparr>sale_id = sales_id_seq db1 + 1,
                            sold_at = modalDate,
                            stock_item_id = Some modalStockId,
                            item_name = ''Modal / Dana Awal'',
                            unit_price = amount,
                            qty = Fin 1,
                            total_price = amount,
                            buyer_name = None,
                            status = lunas\<rparr>],
                        sales_id_seq := sales_id_seq db1 + 1\<rparr>,
                   None))))"

section \<open>Editing a sale (handleSave, onUpdateSale)\<close>

text \<open>
  The fields an update may carry, \<open>{ qty?, buyer_name?, status? }\<close>: \<open>None\<close> is a field
  left out; \<open>buyer_name\<close> may be present and null.
\<close>

record SaleUpdate =
  upd_qty :: "number option"
  upd_buyer_name :: "string option option"
  upd_status :: "sale_status option"

text \<open>
  \<open>onUpdateSale\<close> (lines 1029-1046), the handler behind the sale dialog of the
  transaction list, which opens for every sale entry. When \<open>qty\<close> is given and the sale
  is among \<open>filteredSales\<close>, \<open>total_price\<close> is recomputed; then the row with the id is
  updated. \<open>updateError\<close> is the error of the remote update, if it fails.
\<close>

definition onUpdateSale ::
  "Sale list \<Rightarrow> int \<Rightarrow> SaleUpdate \<Rightarrow> string option \<Rightarrow> Database
     \<Rightarrow> Database \<times> string option" where
  "onUpdateSale fSales id' data updateError db =
     (let new_total =
            (case upd_qty data of
               None \<Rightarrow> None
             | Some q \<Rightarrow>
                 (case find (\<lambda>s. sale_id s = id') fSales of
                    None \<Rightarrow> None
                  | Some sale \<Rightarrow> Some (js_mul (unit_price sale) q)))
      in case updateError of
           Some msg \<Rightarrow> (db, Some msg)
         | None \<Rightarrow>
             (db\<lparr>tbl_sales :=
                   map (\<lambda>s. if sale_id s = id'
                             then s\<lparr>qty := (case upd_qty data of
                                              None \<Rightarrow> qty s | Some q \<Rightarrow> q),
                                    buyer_name := (case upd_buyer_name data of
                                                     None \<Rightarrow> buyer_name s | Some b \<Rightarrow> b),
                                    status := (case upd_status data of
                                                 None \<Rightarrow> status s | Some st \<Rightarrow> st),
                                    total_price := (case new_total of
                                                      None \<Rightarrow> total_price s
                                                    | Some t \<Rightarrow> t)\<rparr>
                             else s)
                     (tbl_sales db)\<rparr>,
              None))"

section \<open>The procedure create_sale (migration, lines 7-77)\<close>

text \<open>
  The procedure runs inside the database server, on the tables with their SQL types:
  \<open>bigint\<close> and \<open>integer\<close> values are integers within their ranges, \<open>numeric\<close> values are
  exact decimal fractions (rationals), \<open>text\<close> values are strings. The column \<open>status\<close>
  is the one the migration adds: \<open>text NOT NULL DEFAULT 'lunas'\<close> with the constraint
  \<open>CHECK (status IN ('lunas', 'belum_bayar'))\<close>. The declarations of the other columns
  (\<^verbatim>\<open>supabase/schema.sql\<close>) are not available; constraints they may add are not
  modelled, and \<open>stock\<close> is an integer of any size.
\<close>

record SqlStockItem =
  si_id :: int
  si_name :: string
  si_price :: rat
  si_stock :: int
  si_image_url :: "string option"
  si_created_at :: int

record SqlSale =
  sa_id :: int
  sa_sold_at :: int
  sa_stock_item_id :: "int option"
  sa_item_name :: string
  sa_unit_price :: rat
  sa_qty :: int
  sa_total_price :: rat
  sa_buyer_name :: "string option"
  sa_status :: string

record SqlDatabase =
  stock_items :: "SqlStockItem list"
  sales_table :: "SqlSale list"

text \<open>\<open>trim(text)\<close> removes spaces from both ends; \<open>nullif(a, b)\<close> is null when \<open>a = b\<close>.\<close>

definition trim :: "string \<Rightarrow> string" where
  "trim s = rev (dropWhile (\<lambda>c. c = CHR '' '') (rev (dropWhile (\<lambda>c. c = CHR '' '') s)))"

definition nullif :: "'a option \<Rightarrow> 'a \<Rightarrow> 'a option" where
  "nullif a b = (case a of None \<Rightarrow> None | Some x \<Rightarrow> if x = b then None else Some x)"

definition coalesce :: "'a option \<Rightarrow> 'a \<Rightarrow> 'a" where
  "coalesce a b = (case a of None \<Rightarrow> b | Some x \<Rightarrow> x)"

text \<open>
  The local variable \<open>total\<close> is declared \<open>numeric(14, 2)\<close>: PL/pgSQL coerces the value
  assigned to it to that type, rounding it to two decimals (a tie away from zero), and
  raises "numeric field overflow" unless the absolute value of the result is below
  \<open>10^12\<close>.
\<close>

definition round_half_away :: "rat \<Rightarrow> int" where
  "round_half_away r = (if 0 \<le> r then \<lfloor>r + 1 / 2\<rfloor> else - \<lfloor>- r + 1 / 2\<rfloor>)"

definition numeric_14_2 :: "rat \<Rightarrow> rat option" where
  "numeric_14_2 v =
     (let r = of_int (round_half_away (v * 100)) / 100
      in if \<bar>r\<bar> < 10 ^ 12 then Some r else None)"

text \<open>The messages of the server's own errors; \<open>quoted s\<close> is \<open>s\<close> in double quotes.\<close>

definition quoted :: "string \<Rightarrow> string" where
  "quoted s = CHR 0x22 # s @ [CHR 0x22]"

definition check_violation :: "string \<Rightarrow> string \<Rightarrow> string" where
  "check_violation relation constraint =
     ''new row for relation '' @ quoted relation @ '' violates check constraint ''
       @ quoted constraint"

text \<open>
  \<open>create_sale\<close> (lines 12-77), statement by statement. The result is the database as
  the procedure leaves it and either the message of the exception that ended it
  (\<open>Inl\<close>) or the inserted row (\<open>Inr\<close>). \<open>SELECT ... INTO item_row\<close> takes the first row
  with the given id, \<open>NOT FOUND\<close> is the absence of one; the \<open>UPDATE\<close> changes every row
  with that id; the \<open>INSERT\<close> fails when the new row violates the constraint on
  \<open>status\<close>. \<open>new_id\<close> is the value the default of \<open>sales.id\<close> gives the new row.
\<close>

definition create_sale ::
  "SqlDatabase \<Rightarrow> int \<Rightarrow> int \<Rightarrow> int \<Rightarrow> string option \<Rightarrow> int \<Rightarrow> string option
     \<Rightarrow> SqlDatabase \<times> (string + SqlSale)" where
  "create_sale db new_id p_stock_item_id p_qty p_buyer_name p_sold_at p_status =
     (if p_qty \<le> 0 then (db, Inl ''qty harus lebih dari 0'')
      else
        case find (\<lambda>r. si_id r = p_stock_item_id) (stock_items db) of
          None \<Rightarrow> (db, Inl ''item tidak ditemukan'')
        | Some item_row \<Rightarrow>
            if si_stock item_row < p_qty then (db, Inl ''stok tidak cukup'')
            else
              (case numeric_14_2 (si_price item_row * of_int p_qty) of
                 None \<Rightarrow> (db, Inl ''numeric field overflow'')
               | Some total' \<Rightarrow>
                   let db1 = db\<lparr>stock_items :=
                                  map (\<lambda>r. if si_id r = p_stock_item_id
                                            then r\<lparr>si_stock := si_stock r - p_qty\<rparr> else r)
                                    (stock_items db)\<rparr>;
                       inserted_sale =
                         \<lparr>sa_id = new_id,
                          sa_sold_at = p_sold_at,
                          sa_stock_item_id = Some (si_id item_row),
                          sa_item_name = si_name item_row,
                          sa_unit_price = si_price item_row,
                          sa_qty = p_qty,
                          sa_total_price = total',
                          sa_buyer_name = nullif (map_option trim p_buyer_name) [],
                          sa_status = coalesce p_status ''lunas''\<rparr>
                   in if sa_status inserted_sale \<notin> {''lunas'', ''belum_bayar''}
                      then (db1, Inl (check_violation ''sales'' ''sales_status_check''))
                      else (db1\<lparr>sales_table := sales_table db1 @ [inserted_sale]\<rparr>,
                            Inr inserted_sale)))"

text \<open>
  The remote procedure call. The arguments arrive as JSON values and are converted to
  the parameter types: a number outside the range of \<open>bigint\<close> or \<open>integer\<close> is refused
  before the procedure runs. The call is one transaction: an exception rolls back
  whatever the procedure has written, so the caller is left with the database as it
  was and the message; otherwise the new database is committed and the row returned.
\<close>

definition out_of_range :: "int \<Rightarrow> string \<Rightarrow> string" where
  "out_of_range v ty =
     ''value '' @ quoted (string_of_int v) @ '' is out of range for type '' @ ty"

definition rpc_create_sale ::
  "SqlDatabase \<Rightarrow> int \<Rightarrow> int \<Rightarrow> int \<Rightarrow> string option \<Rightarrow> int \<Rightarrow> string option
     \<Rightarrow> SqlDatabase \<times> (string + SqlSale)" where
  "rpc_create_sale db new_id p_stock_item_id p_qty p_buyer_name p_sold_at p_status =
     (if p_stock_item_id < - (2 ^ 63) \<or> 2 ^ 63 \<le> p_stock_item_id
      then (db, Inl (out_of_range p_stock_item_id ''bigint''))
      else if p_qty < - (2 ^ 31) \<or> 2 ^ 31 \<le> p_qty
      then (db, Inl (out_of_range p_qty ''integer''))
      else
        case create_sale db new_id p_stock_item_id p_qty p_buyer_name p_sold_at p_status of
          (db', Inl msg) \<Rightarrow> (db, Inl msg)
        | (db', Inr row) \<Rightarrow> (db', Inr row))"

section \<open>Helper lemmas\<close>

lemma pow2_powi: "pow2 e = 2 powi e"
  by (simp add: pow2_def power_int_def field_simps)

lemma pow2_pos [simp]: "0 < pow2 e"
  by (simp add: pow2_def)

lemma pow2_add: "pow2 (a + b) = pow2 a * pow2 b"
  by (simp add: pow2_powi power_int_add)

lemma pow2_mono: "a \<le> b \<Longrightarrow> pow2 a \<le> pow2 b"
  by (simp add: pow2_powi power_int_increasing)

lemma pow2_nat: "0 \<le> e \<Longrightarrow> pow2 e = of_int (2 ^ nat e)"
  by (simp add: pow2_def)

lemma find_upto_first:
  assumes "lo \<le> e" "e \<le> hi" "P e" and "\<And>j. lo \<le> j \<Longrightarrow> j < e \<Longrightarrow> \<not> P j"
  shows "find P [lo..hi] = Some e"
proof -
  let ?i = "nat (e - lo)"
  from assms have "?i < length [lo..hi]" "[lo..hi] ! ?i = e"
    by (simp_all add: nth_upto)
  moreover have "\<not> P ([lo..hi] ! j)" if "j < ?i" for j
  proof -
    from that assms have "[lo..hi] ! j = lo + int j" "lo + int j < e"
      by (simp_all add: nth_upto)
    with assms(4) [of "lo + int j"] show ?thesis
      by simp
  qed
  ultimately show ?thesis
    using assms(3) unfolding find_Some_iff by (intro exI [of _ ?i]) simp
qed

lemma find_upto_Some:
  assumes "find P [lo..hi] = Some e"
  shows "lo \<le> e" "e \<le> hi" "P e" "\<And>j. lo \<le> j \<Longrightarrow> j < e \<Longrightarrow> \<not> P j"
proof -
  from assms obtain i where i: "i < length [lo..hi]" "P ([lo..hi] ! i)" "e = [lo..hi] ! i"
    and first: "\<forall>j<i. \<not> P ([lo..hi] ! j)"
    unfolding find_Some_iff by blast
  from i have e: "e = lo + int i" "lo + int i \<le> hi"
    by (simp_all add: nth_upto)
  then show "lo \<le> e" "e \<le> hi"
    by simp_all
  from i show "P e"
    by simp
  show "\<not> P j" if "lo \<le> j" "j < e" for j
  proof -
    from that e have "nat (j - lo) < i" "[lo..hi] ! nat (j - lo) = j"
      by (simp_all add: nth_upto)
    with first show ?thesis
      by metis
  qed
qed

lemma find_upto_exists:
  assumes "lo \<le> e" "e \<le> hi" "P e"
  obtains e' where "find P [lo..hi] = Some e'"
proof (cases "find P [lo..hi]")
  case None
  with assms show ?thesis
    by (auto simp add: find_None_iff)
next
  case (Some e')
  then show ?thesis
    by (rule that)
qed

lemma double_exponent_eq:
  assumes range: "- 1074 \<le> e" "e \<le> 971"
    and above: "x < pow2 (e + 53)"
    and below: "e = - 1074 \<or> pow2 (e + 52) \<le> x"
  shows "double_exponent x = Some e"
  unfolding double_exponent_def
proof (rule find_upto_first)
  show "- 1074 \<le> e" "e \<le> 971" "x < pow2 (e + 53)"
    by fact+
  show "\<not> x < pow2 (j + 53)" if "- 1074 \<le> j" "j < e" for j
  proof -
    from that below have "pow2 (e + 52) \<le> x"
      by auto
    moreover from that have "pow2 (j + 53) \<le> pow2 (e + 52)"
      by (intro pow2_mono) simp
    ultimately show ?thesis
      by simp
  qed
qed

lemma double_exponent_small:
  assumes "x < pow2 53"
  obtains e where "double_exponent x = Some e" "- 1074 \<le> e" "e \<le> 0"
proof -
  have "(0::int) + 53 = 53"
    by simp
  with assms obtain e where e: "find (\<lambda>e. x < pow2 (e + 53)) [- 1074..971] = Some e"
    by (metis find_upto_exists [of "- 1074" 0 971 "\<lambda>e. x < pow2 (e + 53)"]
        neg_numeral_le_zero zero_le_numeral)
  have "e \<le> 0"
  proof (rule ccontr)
    assume "\<not> e \<le> 0"
    then have "\<not> x < pow2 (0 + 53)"
      by (intro find_upto_Some(4) [OF e]) simp_all
    with assms show False
      by simp
  qed
  moreover have "- 1074 \<le> e"
    by (rule find_upto_Some(1) [OF e])
  ultimately show thesis
    using e that unfolding double_exponent_def by blast
qed

lemma round_half_even_of_int [simp]: "round_half_even (of_int m) = m"
  by (simp add: round_half_even_def)

lemma round_half_even_eq:
  assumes "2 * \<bar>r - of_int m\<bar> < 1 \<or> (2 * \<bar>r - of_int m\<bar> = 1 \<and> even m)"
  shows "round_half_even r = m"
proof -
  define f where "f = \<lfloor>r\<rfloor>"
  have f: "of_int f \<le> r" "r < of_int f + 1"
    unfolding f_def by linarith+
  have gap: "m = f \<or> m = f + 1"
  proof -
    from assms f have "of_int m < (of_int f :: rat) + 2" "(of_int f :: rat) < of_int m + 1"
      by (auto simp add: abs_if split: if_splits)
    then have "m < f + 2" "f < m + 1"
      by (metis of_int_add of_int_less_iff of_int_numeral, metis of_int_add of_int_less_iff of_int_1)
    then show ?thesis
      by linarith
  qed
  show ?thesis
    using assms f gap unfolding round_half_even_def Let_def f_def [symmetric]
    by (auto simp add: abs_if split: if_splits)
qed

lemma round_pos_of_int:
  assumes "0 < n" "n < 2 ^ 53"
  shows "round_pos (of_int n) = Some (of_int n)"
proof -
  from assms have small: "(of_int n :: rat) < pow2 53"
    by (simp add: pow2_nat del: of_int_power)
  then obtain e where e: "double_exponent (of_int n) = Some e" "- 1074 \<le> e" "e \<le> 0"
    by (rule double_exponent_small)
  from e have down: "pow2 e = 1 / of_int (2 ^ nat (- e))"
    by (cases "e = 0") (simp_all add: pow2_def)
  then have quot: "of_int n / pow2 e = of_int (n * 2 ^ nat (- e))"
    by simp
  have undo: "of_int (n * 2 ^ nat (- e)) * pow2 e = (of_int n :: rat)"
    unfolding down by simp
  have "of_int (round_half_even (of_int n / pow2 e)) * pow2 e = (of_int n :: rat)"
    by (simp only: quot round_half_even_of_int undo)
  moreover from small have "(of_int n :: rat) < pow2 1024"
    using pow2_mono [of 53 1024] by simp
  ultimately show ?thesis
    by (simp add: round_pos_def e(1))
qed

lemma round_double_of_int:
  assumes "\<bar>n\<bar> < 2 ^ 53"
  shows "round_double (of_int n) = Fin (of_int n)"
proof -
  consider "n = 0" | "0 < n" | "n < 0" by linarith
  then show ?thesis
  proof cases
    case 1
    then show ?thesis by (simp add: round_double_def)
  next
    case 2
    with assms have "round_pos (of_int n) = Some (of_int n)"
      by (intro round_pos_of_int) simp_all
    with 2 show ?thesis by (simp add: round_double_def)
  next
    case 3
    with assms have "round_pos (of_int (- n)) = Some (of_int (- n))"
      by (intro round_pos_of_int) simp_all
    with 3 show ?thesis by (simp add: round_double_def)
  qed
qed

lemma round_double_eval:
  assumes "0 < x" "- 1074 \<le> e" "e \<le> 971" "x < pow2 (e + 53)"
    and "e = - 1074 \<or> pow2 (e + 52) \<le> x"
    and "2 * \<bar>x / pow2 e - of_int m\<bar> < 1 \<or> (2 * \<bar>x / pow2 e - of_int m\<bar> = 1 \<and> even m)"
    and "of_int m * pow2 e < pow2 1024"
  shows "round_double x = Fin (of_int m * pow2 e)"
proof -
  from assms have "double_exponent x = Some e"
    by (intro double_exponent_eq)
  moreover from assms have "round_half_even (x / pow2 e) = m"
    by (intro round_half_even_eq)
  ultimately show ?thesis
    using assms by (simp add: round_double_def round_pos_def)
qed

lemma js_add_whole:
  assumes "\<bar>a + b\<bar> < 2 ^ 53"
  shows "js_add (Fin (of_int a)) (Fin (of_int b)) = Fin (of_int (a + b))"
  using round_double_of_int [OF assms] by simp

lemma foldl_js_add_map:
  "foldl (\<lambda>acc x. js_add acc (f x)) a xs = foldl js_add a (map f xs)"
  by (induction xs arbitrary: a) simp_all

lemma is_whole_iff: "is_whole x \<longleftrightarrow> (\<exists>n. x = Fin (of_int n))"
proof (cases x)
  case (Fin a)
  have "a = of_int \<lfloor>a\<rfloor> \<longleftrightarrow> (\<exists>n. a = of_int n)"
    by (metis floor_of_int)
  with Fin show ?thesis
    by simp
qed simp_all

lemma js_add_from_whole:
  assumes "list_all is_whole xs"
    and "of_int \<bar>a\<bar> + sum_list (map (\<lambda>x. \<bar>num_val x\<bar>) xs) < 2 ^ 53"
  shows "foldl js_add (Fin (of_int a)) xs = Fin (of_int a + sum_list (map num_val xs))"
  using assms
proof (induction xs arbitrary: a)
  case Nil
  then show ?case by simp
next
  case (Cons x xs)
  from Cons.prems obtain n where x: "x = Fin (of_int n)"
    by (auto simp add: is_whole_iff)
  have rest: "0 \<le> sum_list (map (\<lambda>x. \<bar>num_val x\<bar>) xs)"
    by (rule sum_list_nonneg) auto
  have "\<bar>a + n\<bar> \<le> \<bar>a\<bar> + \<bar>n\<bar>"
    by simp
  then have tri: "(of_int \<bar>a + n\<bar> :: rat) \<le> of_int \<bar>a\<bar> + of_int \<bar>n\<bar>"
    by (metis of_int_add of_int_le_iff)
  with Cons.prems x rest have "(of_int \<bar>a + n\<bar> :: rat) < 2 ^ 53"
    by simp
  then have "\<bar>a + n\<bar> < 2 ^ 53"
    by (metis of_int_less_iff of_int_numeral of_int_power)
  then have step: "js_add (Fin (of_int a)) x = Fin (of_int (a + n))"
    unfolding x by (rule js_add_whole)
  from Cons.prems x tri
  have "of_int \<bar>a + n\<bar> + sum_list (map (\<lambda>x. \<bar>num_val x\<bar>) xs) < (2 ^ 53 :: rat)"
    by simp
  with Cons.IH [of "a + n"] Cons.prems
  have "foldl js_add (Fin (of_int (a + n))) xs
          = Fin (of_int (a + n) + sum_list (map num_val xs))"
    by simp
  with step x show ?case
    by simp
qed

lemma js_sum_whole:
  assumes "whole_in_safe_range xs"
  shows "js_sum xs = Fin (sum_list (map num_val xs))"
  using assms js_add_from_whole [of xs 0]
  by (simp add: js_sum_def whole_in_safe_range_def)

lemma sum_abs_filter_le:
  "sum_list (map (\<lambda>x. \<bar>num_val (f x)\<bar>) (filter P xs))
     \<le> sum_list (map (\<lambda>x. \<bar>num_val (f x)\<bar>) xs)"
  by (induction xs) (auto intro: order_trans)

lemma whole_in_safe_range_filter:
  assumes "whole_in_safe_range (map f xs)"
  shows "whole_in_safe_range (map f (filter P xs))"
proof -
  from assms have "list_all is_whole (map f (filter P xs))"
    by (simp add: whole_in_safe_range_def list_all_iff)
  moreover from assms sum_abs_filter_le [of f P xs]
  have "sum_list (map (\<lambda>x. \<bar>num_val x\<bar>) (map f (filter P xs))) < 2 ^ 53"
    by (simp add: whole_in_safe_range_def o_def)
  ultimately show ?thesis
    by (simp add: whole_in_safe_range_def)
qed

lemma whole_in_safe_range_append:
  assumes "whole_in_safe_range (xs @ ys)"
  shows "whole_in_safe_range xs" "whole_in_safe_range ys"
    and "sum_list (map (\<lambda>x. \<bar>num_val x\<bar>) xs) + sum_list (map (\<lambda>x. \<bar>num_val x\<bar>) ys) < 2 ^ 53"
proof -
  have "0 \<le> sum_list (map (\<lambda>x. \<bar>num_val x\<bar>) zs)" for zs
    by (rule sum_list_nonneg) auto
  from this [of xs] this [of ys] assms
  show "whole_in_safe_range xs" "whole_in_safe_range ys"
    and "sum_list (map (\<lambda>x. \<bar>num_val x\<bar>) xs) + sum_list (map (\<lambda>x. \<bar>num_val x\<bar>) ys) < 2 ^ 53"
    by (simp_all add: whole_in_safe_range_def)
qed

lemma whole_sum_is_int:
  assumes "list_all is_whole xs"
  obtains k where "sum_list (map num_val xs) = of_int k"
    and "of_int \<bar>k\<bar> \<le> sum_list (map (\<lambda>x. \<bar>num_val x\<bar>) xs)"
  using assms
proof (induction xs arbitrary: thesis)
  case Nil
  from Nil(1) [of 0] show ?case by simp
next
  case (Cons x xs)
  from Cons.prems(2) obtain n where x: "x = Fin (of_int n)"
    by (auto simp add: is_whole_iff)
  from Cons.prems(2) have "list_all is_whole xs"
    by simp
  with Cons.IH obtain k where k: "sum_list (map num_val xs) = of_int k"
    "of_int \<bar>k\<bar> \<le> sum_list (map (\<lambda>x. \<bar>num_val x\<bar>) xs)"
    by blast
  have "\<bar>n + k\<bar> \<le> \<bar>n\<bar> + \<bar>k\<bar>"
    by simp
  then have "(of_int \<bar>n + k\<bar> :: rat) \<le> of_int \<bar>n\<bar> + of_int \<bar>k\<bar>"
    by (metis of_int_add of_int_le_iff)
  with k x show ?case
    by (intro Cons.prems(1) [of "n + k"]) simp_all
qed

lemma js_sub_sums_whole:
  assumes "whole_in_safe_range (xs @ ys)"
  shows "js_sub (js_sum xs) (js_sum ys)
           = Fin (sum_list (map num_val xs) - sum_list (map num_val ys))"
proof -
  note parts = whole_in_safe_range_append [OF assms]
  from parts(1) obtain a where a: "sum_list (map num_val xs) = of_int a"
    "of_int \<bar>a\<bar> \<le> sum_list (map (\<lambda>x. \<bar>num_val x\<bar>) xs)"
    by (auto simp add: whole_in_safe_range_def elim: whole_sum_is_int)
  from parts(2) obtain b where b: "sum_list (map num_val ys) = of_int b"
    "of_int \<bar>b\<bar> \<le> sum_list (map (\<lambda>x. \<bar>num_val x\<bar>) ys)"
    by (auto simp add: whole_in_safe_range_def elim: whole_sum_is_int)
  have "\<bar>a - b\<bar> \<le> \<bar>a\<bar> + \<bar>b\<bar>"
    by simp
  then have "(of_int \<bar>a - b\<bar> :: rat) \<le> of_int \<bar>a\<bar> + of_int \<bar>b\<bar>"
    by (metis of_int_add of_int_le_iff)
  with a b parts(3) have "(of_int \<bar>a - b\<bar> :: rat) < 2 ^ 53"
    by simp
  then have "\<bar>a + (- b)\<bar> < 2 ^ 53"
    by (metis add_uminus_conv_diff of_int_less_iff of_int_numeral of_int_power)
  then have "js_add (Fin (of_int a)) (Fin (of_int (- b))) = Fin (of_int (a + (- b)))"
    by (rule js_add_whole)
  with a b show ?thesis
    by (simp add: js_sub_def js_sum_whole [OF parts(1)] js_sum_whole [OF parts(2)])
qed

lemma sorted_wrt_filter_iff:
  "sorted_wrt R (filter P xs) = sorted_wrt (\<lambda>a b. P a \<and> P b \<longrightarrow> R a b) xs"
  by (induction xs) auto

lemma sale_tx_sel [simp]:
  "tx_type (sale_tx s) = TxSale" "date (sale_tx s) = sold_at s"
  by (simp_all add: sale_tx_def)

lemma expense_tx_sel [simp]:
  "tx_type (expense_tx e) = TxExpense" "date (expense_tx e) = bought_at e"
  by (simp_all add: expense_tx_def)

lemma sales_then_expenses:
  "sorted_wrt (\<lambda>a b. \<not> (tx_type a = TxExpense \<and> tx_type b = TxSale))
     (map sale_tx ss @ map expense_tx es)"
  by (simp add: sorted_wrt_append sorted_wrt_map)

lemma transactions_same_date:
  "filter (\<lambda>t. date t = k) (transactions sales expenses)
     = map sale_tx (filter (\<lambda>s. sold_at s = k) sales)
       @ map expense_tx (filter (\<lambda>e. bought_at e = k) expenses)"
proof -
  have "filter (\<lambda>t. - date t = - k) (transactions sales expenses)
          = filter (\<lambda>t. - date t = - k) (map sale_tx sales @ map expense_tx expenses)"
    unfolding transactions_def Let_def by (rule sort_key_stable)
  then show ?thesis
    by (simp add: filter_map o_def)
qed

lemma transactions_stable:
  "sorted_wrt (\<lambda>a b. date a = date b \<longrightarrow> \<not> (tx_type a = TxExpense \<and> tx_type b = TxSale))
     (transactions sales expenses)"
proof -
  let ?T = "transactions sales expenses"
  let ?R = "\<lambda>a b. \<not> (tx_type a = TxExpense \<and> tx_type b = TxSale)"
  have per_key: "sorted_wrt ?R (filter (\<lambda>t. date t = k) ?T)" for k
    by (simp only: transactions_same_date sales_then_expenses)
  show ?thesis
    unfolding sorted_wrt_iff_nth_less
  proof (intro allI impI)
    fix i j
    assume ij: "i < j" "j < length ?T" and same: "date (?T ! i) = date (?T ! j)"
    from per_key [of "date (?T ! i)"]
    have "sorted_wrt (\<lambda>a b. date a = date (?T ! i) \<and> date b = date (?T ! i) \<longrightarrow> ?R a b) ?T"
      by (simp only: sorted_wrt_filter_iff)
    with ij same show "?R (?T ! i) (?T ! j)"
      by (auto simp add: sorted_wrt_iff_nth_less)
  qed
qed

lemma transactions_descending:
  "sorted_wrt (\<lambda>a b. date b \<le> date a) (transactions sales expenses)"
proof -
  have "sorted (map (\<lambda>t. - date t) (transactions sales expenses))"
    unfolding transactions_def Let_def by (rule sorted_sort_key)
  then show ?thesis
    by (simp add: sorted_map)
qed

lemma map_get_map_of: "map_get m k = map_of m k"
  by (induction m) auto

lemma map_set_member_keys:
  "(k, v0) \<in> set m \<Longrightarrow> map fst (map_set k v m) = map fst m"
  by (induction m) auto

lemma map_set_keys_present:
  "k \<in> fst ` set m \<Longrightarrow> map fst (map_set k v m) = map fst m"
  using map_set_member_keys by fastforce

lemma map_set_keys_new:
  "k \<notin> fst ` set m \<Longrightarrow> map_set k v m = m @ [(k, v)]"
  by (induction m) auto

lemma map_get_map_set:
  "map_get (map_set k v m) k' = (if k' = k then Some v else map_get m k')"
  by (induction m) auto

lemma map_get_None_iff: "map_get m k = None \<longleftrightarrow> k \<notin> fst ` set m"
  by (simp add: map_get_map_of map_of_eq_None_iff)

lemma map_get_distinct:
  "distinct (map fst m) \<Longrightarrow> (k, v) \<in> set m \<Longrightarrow> map_get m k = Some v"
  by (simp add: map_get_map_of)

lemma foldl_map_set_fresh:
  "distinct (map f is) \<Longrightarrow> f ` set is \<inter> fst ` set m = {} \<Longrightarrow>
   foldl (\<lambda>m i. map_set (f i) v m) m is = m @ map (\<lambda>i. (f i, v)) is"
proof (induction "is" arbitrary: m)
  case Nil
  then show ?case by simp
next
  case (Cons i "is")
  from Cons.prems have fresh: "f i \<notin> fst ` set m" by auto
  have "f ` set is \<inter> fst ` set (m @ [(f i, v)]) = {}"
    using Cons.prems by auto
  with Cons.IH [of "m @ [(f i, v)]"] Cons.prems fresh show ?case
    by (simp add: map_set_keys_new)
qed

lemma int_le_div_iff:
  fixes c :: int
  assumes "0 < c"
  shows "(k \<le> t div c) = (k * c \<le> t)"
proof
  assume "k \<le> t div c"
  with assms have "k * c \<le> (t div c) * c"
    by (simp add: mult_right_mono)
  also have "\<dots> = t - t mod c"
    by (simp add: minus_mod_eq_div_mult)
  also from assms have "\<dots> \<le> t"
    by simp
  finally show "k * c \<le> t" .
next
  assume "k * c \<le> t"
  then have "(k * c) div c \<le> t div c"
    using assms by (rule zdiv_mono1)
  with assms show "k \<le> t div c"
    by simp
qed

lemma format_ymd_ge_iff: "(d \<le> format_ymd t) = (d * msPerDay \<le> t)"
  unfolding format_ymd_def by (rule int_le_div_iff) (simp add: msPerDay_def)

lemma format_ymd_subDays: "format_ymd (subDays now n) = format_ymd now - n"
  by (simp add: format_ymd_def subDays_def msPerDay_def)

lemma startOfDay_subDays: "startOfDay (subDays now n) = (format_ymd now - n) * msPerDay"
proof -
  have "startOfDay t = format_ymd t * msPerDay" for t
    by (simp add: startOfDay_def format_ymd_def)
  then show ?thesis
    by (simp only: format_ymd_subDays)
qed

lemma chart_add_sale_keys:
  "map fst (chart_add_sale start m s)
     = (if sold_at s < start \<or> format_ymd (sold_at s) \<in> set (map fst m) then map fst m
        else map fst m @ [format_ymd (sold_at s)])"
  by (simp add: chart_add_sale_def Let_def map_set_keys_present map_set_keys_new)

lemma fold_chart_add_sale_keys:
  "map fst (foldl (chart_add_sale start) m sales)
     = foldl (\<lambda>ks s. if sold_at s < start \<or> format_ymd (sold_at s) \<in> set ks then ks
                      else ks @ [format_ymd (sold_at s)]) (map fst m) sales"
  by (induction sales arbitrary: m) (simp_all only: foldl.simps chart_add_sale_keys)

lemma fold_sales_in_window:
  assumes "\<forall>s \<in> set sales. start \<le> sold_at s \<longrightarrow> format_ymd (sold_at s) \<in> fst ` set m"
  shows "map fst (foldl (chart_add_sale start) m sales) = map fst m
       \<and> (\<forall>d. map_get (foldl (chart_add_sale start) m sales) d
             = map_option (\<lambda>v. foldl js_add v (map total_price
                  (filter (\<lambda>s. start \<le> sold_at s \<and> format_ymd (sold_at s) = d) sales)))
                 (map_get m d))"
  using assms
proof (induction sales arbitrary: m)
  case Nil
  then show ?case by (simp add: option.map_ident)
next
  case (Cons s sales)
  let ?final' = "chart_add_sale start m s"
  have keys: "map fst ?final' = map fst m"
    using Cons.prems by (auto simp add: chart_add_sale_def Let_def map_set_keys_present)
  then have "fst ` set ?final' = fst ` set m"
    by (metis list.set_map)
  with Cons.prems have "\<forall>s \<in> set sales. start \<le> sold_at s \<longrightarrow> format_ymd (sold_at s) \<in> fst ` set ?final'"
    by simp
  from Cons.IH [OF this] keys
  have IH: "map fst (foldl (chart_add_sale start) ?final' sales) = map fst m"
    "\<And>d. map_get (foldl (chart_add_sale start) ?final' sales) d
             = map_option (\<lambda>v. foldl js_add v (map total_price
                  (filter (\<lambda>s. start \<le> sold_at s \<and> format_ymd (sold_at s) = d) sales)))
                 (map_get ?final' d)"
    by simp_all
  have step: "map_get ?final' d = map_option (\<lambda>v. if start \<le> sold_at s \<and> format_ymd (sold_at s) = d then js_add v (total_price s) else v) (map_get m d)" for d
  proof (cases "start \<le> sold_at s")
    case False
    then show ?thesis by (simp add: chart_add_sale_def Let_def option.map_ident)
  next
    case True
    with Cons.prems have "format_ymd (sold_at s) \<in> fst ` set m" by simp
    then obtain v where "map_get m (format_ymd (sold_at s)) = Some v"
      using map_get_None_iff [of m "format_ymd (sold_at s)"] by (cases "map_get m (format_ymd (sold_at s))") auto
    with True show ?thesis
      by (auto simp add: chart_add_sale_def Let_def map_get_map_set option.map_ident)
  qed
  show ?case
    using IH(1) by (auto simp add: IH(2) step option.map_comp o_def)
qed

lemma dailyMap0_days:
  "foldl (\<lambda>m i. map_set (format_ymd (subDays now (29 - i))) (Fin 0) m) [] [0..29]
     = map (\<lambda>i. (format_ymd now - 29 + i, Fin 0)) [0..29]"
proof -
  have "distinct (map (\<lambda>i. format_ymd (subDays now (29 - i))) [0..29])"
    by (simp add: distinct_map format_ymd_subDays inj_on_def)
  then have "foldl (\<lambda>m i. map_set (format_ymd (subDays now (29 - i))) (Fin 0) m) [] [0..29]
      = [] @ map (\<lambda>i. (format_ymd (subDays now (29 - i)), Fin 0)) [0..29]"
    by (intro foldl_map_set_fresh) simp_all
  then show ?thesis
    by (simp add: format_ymd_subDays)
qed

lemma chartData_days:
  "map day (chartData now sales)
     = foldl (\<lambda>ks s. if sold_at s < startOfDay (subDays now 29) \<or> format_ymd (sold_at s) \<in> set ks
                      then ks else ks @ [format_ymd (sold_at s)])
         (map (\<lambda>i. format_ymd now - 29 + i) [0..29]) sales"
proof -
  let ?init = "map (\<lambda>i. (format_ymd now - 29 + i, Fin 0)) [0..29]"
  have "map day (chartData now sales)
      = map fst (foldl (chart_add_sale (startOfDay (subDays now 29))) ?init sales)"
    by (simp add: chartData_def Let_def dailyMap0_days case_prod_unfold o_def)
  also have "map fst ?init = map (\<lambda>i. format_ymd now - 29 + i) [0..29]"
    by (simp add: o_def)
  ultimately show ?thesis
    by (simp only: fold_chart_add_sale_keys)
qed

lemma chartData_without_future_sales:
  assumes "\<forall>s \<in> set sales. sold_at s < startOfDay now + msPerDay"
  shows "map day (chartData now sales) = map (\<lambda>i. format_ymd now - 29 + i) [0..29]
       \<and> length (chartData now sales) = 30
       \<and> (\<forall>r \<in> set (chartData now sales).
            day_amount r = js_sum (map total_price
              (filter (\<lambda>s. format_ymd (sold_at s) = day r) sales)))"
proof -
  let ?D = "format_ymd now"
  let ?start = "startOfDay (subDays now 29)"
  let ?init = "map (\<lambda>i. (?D - 29 + i, Fin 0)) [0..29]"
  let ?final = "foldl (chart_add_sale ?start) ?init sales"
  have start: "?start = (?D - 29) * msPerDay"
    by (rule startOfDay_subDays)
  have keys0: "fst ` set ?init = {?D - 29 .. ?D}"
  proof (rule set_eqI)
    fix d
    have "d \<in> fst ` set ?init \<longleftrightarrow> (\<exists>i \<in> {0..29}. d = ?D - 29 + i)"
      by (auto simp add: image_iff)
    also have "\<dots> \<longleftrightarrow> ?D - 29 \<le> d \<and> d \<le> ?D"
    proof
      assume "\<exists>i \<in> {0..29}. d = ?D - 29 + i"
      then show "?D - 29 \<le> d \<and> d \<le> ?D" by auto
    next
      assume "?D - 29 \<le> d \<and> d \<le> ?D"
      then have "d - (?D - 29) \<in> {0..29}" "d = ?D - 29 + (d - (?D - 29))" by auto
      then show "\<exists>i \<in> {0..29}. d = ?D - 29 + i" by blast
    qed
    finally show "d \<in> fst ` set ?init \<longleftrightarrow> d \<in> {?D - 29 .. ?D}" by simp
  qed
  have day_bounds: "?D - 29 \<le> format_ymd t \<longleftrightarrow> ?start \<le> t" for t
    unfolding start by (rule format_ymd_ge_iff)
  have in_keys: "\<forall>s \<in> set sales. ?start \<le> sold_at s \<longrightarrow> format_ymd (sold_at s) \<in> fst ` set ?init"
  proof (intro ballI impI)
    fix s assume s: "s \<in> set sales" and lo: "?start \<le> sold_at s"
    from assms s have "sold_at s < (?D + 1) * msPerDay"
      by (simp add: startOfDay_def format_ymd_def algebra_simps)
    then have "\<not> ?D + 1 \<le> format_ymd (sold_at s)"
      by (simp add: format_ymd_ge_iff)
    then have "format_ymd (sold_at s) \<le> ?D"
      by simp
    with lo day_bounds [of "sold_at s"] show "format_ymd (sold_at s) \<in> fst ` set ?init"
      unfolding keys0 by simp
  qed
  from fold_sales_in_window [OF in_keys]
  have keys: "map fst ?final = map fst ?init"
    and vals: "\<And>d. map_get ?final d = map_option (\<lambda>v. foldl js_add v (map total_price
                  (filter (\<lambda>s. ?start \<le> sold_at s \<and> format_ymd (sold_at s) = d) sales)))
                 (map_get ?init d)"
    by simp_all
  have chart: "chartData now sales = map (\<lambda>(d, a). \<lparr>day = d, day_amount = a\<rparr>) ?final"
    by (simp add: chartData_def Let_def dailyMap0_days)
  have days: "map day (chartData now sales) = map (\<lambda>i. ?D - 29 + i) [0..29]"
  proof -
    have "map day (chartData now sales) = map fst ?final"
      unfolding chart by (simp add: case_prod_unfold o_def)
    also have "\<dots> = map (\<lambda>i. ?D - 29 + i) [0..29]"
      unfolding keys by (simp add: o_def)
    finally show ?thesis .
  qed
  have len: "length (chartData now sales) = 30"
  proof -
    have "length (chartData now sales) = length (map day (chartData now sales))" by simp
    also have "\<dots> = 30" unfolding days by simp
    finally show ?thesis .
  qed
  have dist: "distinct (map fst ?final)"
    unfolding keys by (simp add: o_def distinct_map inj_on_def)
  have amounts: "\<forall>r \<in> set (chartData now sales).
            day_amount r = js_sum (map total_price
              (filter (\<lambda>s. format_ymd (sold_at s) = day r) sales))"
  proof
    fix r assume "r \<in> set (chartData now sales)"
    then obtain d a where da: "(d, a) \<in> set ?final" and r: "r = \<lparr>day = d, day_amount = a\<rparr>"
      unfolding chart by auto
    from map_get_distinct [OF dist da] have get: "map_get ?final d = Some a" .
    from da have "d \<in> fst ` set ?final" by (simp add: rev_image_eqI)
    then have "d \<in> fst ` set ?init"
      using keys by (metis list.set_map)
    then have d_range: "?D - 29 \<le> d" "d \<le> ?D"
      unfolding keys0 by simp_all
    have "map_get ?init d = Some (Fin 0)"
      by (rule map_get_distinct) (use \<open>d \<in> fst ` set ?init\<close> in \<open>auto simp add: o_def distinct_map inj_on_def\<close>)
    with vals [of d] get
    have "a = js_sum (map total_price
                  (filter (\<lambda>s. ?start \<le> sold_at s \<and> format_ymd (sold_at s) = d) sales))"
      by (simp add: js_sum_def)
    moreover have "filter (\<lambda>s. ?start \<le> sold_at s \<and> format_ymd (sold_at s) = d) sales
        = filter (\<lambda>s. format_ymd (sold_at s) = d) sales"
      using d_range by (intro filter_cong refl) (auto simp add: day_bounds [symmetric])
    ultimately show "day_amount r = js_sum (map total_price
              (filter (\<lambda>s. format_ymd (sold_at s) = day r) sales))"
      by (simp add: r)
  qed
  from days len amounts show ?thesis by blast
qed

lemma round_double_zero [simp]: "round_double 0 = Fin 0"
  by (simp add: round_double_def)

lemma round_double_one [simp]: "round_double 1 = Fin 1"
  using round_double_of_int [of 1] by simp

lemma round_double_numeral:
  assumes "(numeral k :: int) < 2 ^ 53"
  shows "round_double (numeral k) = Fin (numeral k)"
  using round_double_of_int [of "numeral k"] assms by simp

lemma round_double_neg_numeral:
  assumes "(numeral k :: int) < 2 ^ 53"
  shows "round_double (- numeral k) = Fin (- numeral k)"
  using round_double_of_int [of "- numeral k"] assms by simp

lemma positive_amount_iff:
  "\<not> (\<not> is_finite x \<or> js_le x (Fin 0)) \<longleftrightarrow> (\<exists>a. x = Fin a \<and> 0 < a)"
  by (cases x) auto

lemma round_double_whole_sum:
  assumes "whole_in_safe_range xs"
  shows "round_double (sum_list (map num_val xs)) = Fin (sum_list (map num_val xs))"
proof -
  from assms obtain k where k: "sum_list (map num_val xs) = of_int k"
    "of_int \<bar>k\<bar> \<le> sum_list (map (\<lambda>x. \<bar>num_val x\<bar>) xs)"
    by (auto simp add: whole_in_safe_range_def elim: whole_sum_is_int)
  with assms have "(of_int \<bar>k\<bar> :: rat) < 2 ^ 53"
    by (simp add: whole_in_safe_range_def)
  then have "\<bar>k\<bar> < 2 ^ 53"
    by (metis of_int_less_iff of_int_numeral of_int_power)
  then show ?thesis
    unfolding k by (rule round_double_of_int)
qed

lemma whole_in_safe_range_append_filter:
  assumes "whole_in_safe_range (map f xs @ map g ys)"
  shows "whole_in_safe_range (map f (filter P xs) @ map g (filter Q ys))"
proof -
  from assms have "list_all is_whole (map f (filter P xs) @ map g (filter Q ys))"
    by (auto simp add: whole_in_safe_range_def list_all_iff)
  moreover from assms sum_abs_filter_le [of f P xs] sum_abs_filter_le [of g Q ys]
  have "sum_list (map (\<lambda>x. \<bar>num_val x\<bar>) (map f (filter P xs) @ map g (filter Q ys))) < 2 ^ 53"
    by (simp add: whole_in_safe_range_def o_def)
  ultimately show ?thesis
    by (simp add: whole_in_safe_range_def)
qed

lemma round_double_representable:
  assumes "2 ^ 52 \<le> m" "m < 2 ^ 53" "- 1074 \<le> e" "e \<le> 971"
  shows "round_double (of_int m * pow2 e) = Fin (of_int m * pow2 e)"
proof (rule round_double_eval)
  from assms have m: "(0::rat) < of_int m" "(of_int m :: rat) < 2 ^ 53" "(2 ^ 52 :: rat) \<le> of_int m"
    by (simp_all add: of_int_less_numeral_power_cancel_iff numeral_power_le_of_int_cancel_iff)
  then show "0 < of_int m * pow2 e"
    by simp
  show "- 1074 \<le> e" "e \<le> 971"
    by fact+
  have "pow2 53 = 2 ^ 53" "pow2 52 = 2 ^ 52"
    by (simp_all add: pow2_def)
  then have "pow2 (e + 53) = pow2 e * 2 ^ 53" "pow2 (e + 52) = pow2 e * 2 ^ 52"
    by (simp_all only: pow2_add)
  with m show "of_int m * pow2 e < pow2 (e + 53)" "e = - 1074 \<or> pow2 (e + 52) \<le> of_int m * pow2 e"
    by (simp_all add: mult.commute)
  show "2 * \<bar>of_int m * pow2 e / pow2 e - of_int m\<bar> < 1
      \<or> (2 * \<bar>of_int m * pow2 e / pow2 e - of_int m\<bar> = 1 \<and> even m)"
  proof -
    have "pow2 e \<noteq> 0"
      by (rule not_sym, rule less_imp_neq, rule pow2_pos)
    then show ?thesis
      by simp
  qed
  have "of_int m * pow2 e < 2 ^ 53 * pow2 e"
    using m by simp
  also have "\<dots> \<le> 2 ^ 53 * pow2 971"
    using assms by (simp add: pow2_mono)
  also have "\<dots> = pow2 1024"
    by (simp add: pow2_def)
  finally show "of_int m * pow2 e < pow2 1024" .
qed

lemma metrics_sel:
  "totalSales (metrics sales expenses) = int (length sales)"
  "totalRevenue (metrics sales expenses) = js_sum (map total_price sales)"
  "totalExpenses (metrics sales expenses) = js_sum (map total_cost expenses)"
  "profit (metrics sales expenses)
     = js_sub (js_sum (map total_price sales)) (js_sum (map total_cost expenses))"
  "piutang (metrics sales expenses)
     = js_sum (map total_price (filter (\<lambda>s. status s = belum_bayar) sales))"
  by (simp_all add: metrics_def Let_def js_sum_def foldl_map)

lemma status_change_prices:
  assumes "i < length sales"
  shows "map total_price (sales[i := (sales ! i)\<lparr>status := belum_bayar\<rparr>])
           = map total_price sales"
  using assms by (simp add: map_update list_update_same_conv)

lemma status_change_unpaid_sum:
  assumes "i < length sales" and "status (sales ! i) = lunas"
  shows "sum_list (map (\<lambda>s. num_val (total_price s)) (filter (\<lambda>s. status s = belum_bayar)
            (sales[i := (sales ! i)\<lparr>status := belum_bayar\<rparr>])))
          = sum_list (map (\<lambda>s. num_val (total_price s))
              (filter (\<lambda>s. status s = belum_bayar) sales))
            + num_val (total_price (sales ! i))"
  using assms
proof (induction sales arbitrary: i)
  case Nil
  then show ?case by simp
next
  case (Cons a sales)
  then show ?case by (cases i) auto
qed

lemma ledger_header_sel:
  "total_penjualan (ledger_header fSales fExpenses)
     = int (length (filter (\<lambda>s. item_name s \<noteq> ''Modal / Dana Awal'') fSales))"
  "penjualan (ledger_header fSales fExpenses)
     = js_sum (map total_price (filter (\<lambda>s. item_name s \<noteq> ''Modal / Dana Awal'') fSales))"
  "total_modal (ledger_header fSales fExpenses)
     = js_sum (map total_price (filter (\<lambda>s. item_name s = ''Modal / Dana Awal'') fSales))"
  "pengeluaran (ledger_header fSales fExpenses) = js_sum (map total_cost fExpenses)"
  "pendapatan_bersih (ledger_header fSales fExpenses)
     = js_sub (js_sum (map total_price
                 (filter (\<lambda>s. item_name s \<noteq> ''Modal / Dana Awal'') fSales)))
         (js_sum (map total_cost fExpenses))"
  by (simp_all add: ledger_header_def Let_def js_sum_def foldl_map)

lemma whole_in_safe_range_tl:
  assumes "whole_in_safe_range (x # xs)"
  shows "whole_in_safe_range xs"
proof -
  have "0 \<le> \<bar>num_val x\<bar>"
    by simp
  with assms show ?thesis
    unfolding whole_in_safe_range_def by (simp del: abs_ge_zero)
qed

lemma ledger_header_exact:
  assumes "whole_in_safe_range (map total_price fSales @ map total_cost fExpenses)"
  shows "penjualan (ledger_header fSales fExpenses)
           = Fin (sum_list (map (\<lambda>s. num_val (total_price s))
                    (filter (\<lambda>s. item_name s \<noteq> ''Modal / Dana Awal'') fSales)))"
    and "total_modal (ledger_header fSales fExpenses)
           = Fin (sum_list (map (\<lambda>s. num_val (total_price s))
                    (filter (\<lambda>s. item_name s = ''Modal / Dana Awal'') fSales)))"
    and "pengeluaran (ledger_header fSales fExpenses)
           = Fin (sum_list (map (\<lambda>e. num_val (total_cost e)) fExpenses))"
    and "pendapatan_bersih (ledger_header fSales fExpenses)
           = Fin (sum_list (map (\<lambda>s. num_val (total_price s))
                    (filter (\<lambda>s. item_name s \<noteq> ''Modal / Dana Awal'') fSales))
                  - sum_list (map (\<lambda>e. num_val (total_cost e)) fExpenses))"
proof -
  note parts = whole_in_safe_range_append [OF assms]
  from whole_in_safe_range_append_filter [OF assms,
      of "\<lambda>s. item_name s \<noteq> ''Modal / Dana Awal''" "\<lambda>e. True"]
  have actual: "whole_in_safe_range
      (map total_price (filter (\<lambda>s. item_name s \<noteq> ''Modal / Dana Awal'') fSales)
       @ map total_cost fExpenses)"
    by simp
  from js_sum_whole [OF whole_in_safe_range_append(1) [OF actual]]
  show "penjualan (ledger_header fSales fExpenses)
           = Fin (sum_list (map (\<lambda>s. num_val (total_price s))
                    (filter (\<lambda>s. item_name s \<noteq> ''Modal / Dana Awal'') fSales)))"
    by (simp add: ledger_header_sel o_def)
  from js_sum_whole [OF whole_in_safe_range_filter [OF parts(1)]]
  show "total_modal (ledger_header fSales fExpenses)
           = Fin (sum_list (map (\<lambda>s. num_val (total_price s))
                    (filter (\<lambda>s. item_name s = ''Modal / Dana Awal'') fSales)))"
    by (simp add: ledger_header_sel o_def)
  from js_sum_whole [OF parts(2)]
  show "pengeluaran (ledger_header fSales fExpenses)
           = Fin (sum_list (map (\<lambda>e. num_val (total_cost e)) fExpenses))"
    by (simp add: ledger_header_sel o_def)
  from js_sub_sums_whole [OF actual]
  show "pendapatan_bersih (ledger_header fSales fExpenses)
           = Fin (sum_list (map (\<lambda>s. num_val (total_price s))
                    (filter (\<lambda>s. item_name s \<noteq> ''Modal / Dana Awal'') fSales))
                  - sum_list (map (\<lambda>e. num_val (total_cost e)) fExpenses))"
    by (simp add: ledger_header_sel o_def)
qed

lemma filtered_safe:
  assumes "whole_in_safe_range (map total_price sales @ map total_cost expenses)"
  shows "whole_in_safe_range (map total_price (filteredSales fromDate toDate sales)
           @ map total_cost (filteredExpenses fromDate toDate expenses))"
  unfolding filteredSales_def filteredExpenses_def Let_def
  by (rule whole_in_safe_range_append_filter [OF assms])

lemma section_metrics_eq:
  "section_metrics cutoff sales expenses
     = metrics (case cutoff of Some t \<Rightarrow> filter (\<lambda>s. t \<le> sold_at s) sales | None \<Rightarrow> sales)
         (case cutoff of Some t \<Rightarrow> filter (\<lambda>e. t \<le> bought_at e) expenses | None \<Rightarrow> expenses)"
  by (simp add: section_metrics_def metrics_def Let_def)

lemma js_sum_snoc: "js_sum (xs @ [x]) = js_add (js_sum xs) x"
  by (simp add: js_sum_def)

lemma find_decremented:
  "find (\<lambda>r. si_id r = p_id)
     (map (\<lambda>r. if si_id r = p_id then r\<lparr>si_stock := si_stock r - p_qty\<rparr> else r) rows)
     = map_option (\<lambda>r. r\<lparr>si_stock := si_stock r - p_qty\<rparr>) (find (\<lambda>r. si_id r = p_id) rows)"
  by (induction rows) simp_all

lemma round_half_away_of_int [simp]: "round_half_away (of_int n) = n"
proof -
  have "\<lfloor>(of_int n :: rat) + 1 / 2\<rfloor> = n" "\<lfloor>- (of_int n :: rat) + 1 / 2\<rfloor> = - n"
    by linarith+
  then show ?thesis
    by (simp add: round_half_away_def)
qed

lemma numeric_14_2_exact:
  assumes "v * 100 = of_int k" and "\<bar>v\<bar> < 10 ^ 12"
  shows "numeric_14_2 v = Some v"
proof -
  from assms(1) have "of_int (round_half_away (v * 100)) / 100 = v"
    by simp
  with assms(2) show ?thesis
    by (simp add: numeric_14_2_def Let_def)
qed

lemma numeric_14_2_overflow:
  assumes "10 ^ 12 \<le> \<bar>v\<bar>"
  shows "numeric_14_2 v = None"
proof -
  have "10 ^ 14 \<le> \<bar>round_half_away (v * 100)\<bar>"
  proof (cases "0 \<le> v")
    case True
    with assms have "(10 ^ 14 :: rat) \<le> v * 100"
      by simp
    then have "(10 ^ 14 :: int) \<le> \<lfloor>v * 100 + 1 / 2\<rfloor>"
      unfolding le_floor_iff by simp
    with True show ?thesis
      by (simp add: round_half_away_def)
  next
    case False
    with assms have "(10 ^ 14 :: rat) \<le> - (v * 100)"
      by simp
    then have "(10 ^ 14 :: int) \<le> \<lfloor>- (v * 100) + 1 / 2\<rfloor>"
      unfolding le_floor_iff by simp
    with False show ?thesis
      by (simp add: round_half_away_def mult_less_0_iff)
  qed
  then have "(10 ^ 14 :: rat) \<le> of_int \<bar>round_half_away (v * 100)\<bar>"
    by (metis of_int_le_iff of_int_numeral of_int_power)
  then have "(10 ^ 12 :: rat) \<le> \<bar>of_int (round_half_away (v * 100)) / 100\<bar>"
    by simp
  then show ?thesis
    by (simp add: numeric_14_2_def Let_def)
qed

lemma rpc_create_sale_rollback:
  assumes "rpc_create_sale db new_id p_id p_qty p_buyer_name p_sold_at p_status = (db', Inl msg)"
  shows "db' = db"
  using assms
  by (auto simp add: rpc_create_sale_def split: if_splits prod.splits sum.splits)

section \<open>Claims\<close>

text \<open>
  C1, as stated, fails: the totals are JavaScript numbers and \<open>reduce\<close> adds them in
  double precision, so a total need not be the exact sum. For two sales priced 0.1 and
  0.2 (each held as the nearest double) totalRevenue is 0.30000000000000004, the double
  \<open>1351079888211149 / 2^52\<close>, which is not the sum of the two prices; and for two sales
  priced \<open>2^53\<close> and 1 totalRevenue is \<open>2^53\<close>.
\<close>

theorem C1_inexact_total_counterexample:
  "round_double (1 / 10) = Fin (3602879701896397 / 36028797018963968)
   \<and> round_double (2 / 10) = Fin (3602879701896397 / 18014398509481984)
   \<and> totalRevenue (metrics
        [\<lparr>sale_id = 1, sold_at = 0, stock_item_id = None, item_name = ''Pita'',
          unit_price = Fin (3602879701896397 / 36028797018963968), qty = Fin 1,
          total_price = Fin (3602879701896397 / 36028797018963968), buyer_name = None,
          status = lunas\<rparr>,
         \<lparr>sale_id = 2, sold_at = 0, stock_item_id = None, item_name = ''Manik'',
          unit_price = Fin (3602879701896397 / 18014398509481984), qty = Fin 1,
          total_price = Fin (3602879701896397 / 18014398509481984), buyer_name = None,
          status = lunas\<rparr>] [])
       = Fin (1351079888211149 / 4503599627370496)
   \<and> (1351079888211149 / 4503599627370496 :: rat)
       \<noteq> 3602879701896397 / 36028797018963968 + 3602879701896397 / 18014398509481984
   \<and> totalRevenue (metrics
        [\<lparr>sale_id = 1, sold_at = 0, stock_item_id = None, item_name = ''Emas'',
          unit_price = Fin 9007199254740992, qty = Fin 1,
          total_price = Fin 9007199254740992, buyer_name = None, status = lunas\<rparr>,
         \<lparr>sale_id = 2, sold_at = 0, stock_item_id = None, item_name = ''Manik'',
          unit_price = Fin 1, qty = Fin 1, total_price = Fin 1, buyer_name = None,
          status = lunas\<rparr>] [])
       = Fin 9007199254740992"
proof -
  have tenth: "round_double (1 / 10) = Fin (3602879701896397 / 36028797018963968)"
    using round_double_eval [of "1 / 10" "- 56" 7205759403792794]
    by (simp add: pow2_def)
  have fifth: "round_double (1 / 5) = Fin (3602879701896397 / 18014398509481984)"
    using round_double_eval [of "1 / 5" "- 55" 7205759403792794]
    by (simp add: pow2_def)
  have first: "round_double (3602879701896397 / 36028797018963968)
      = Fin (3602879701896397 / 36028797018963968)"
    using round_double_representable [of 7205759403792794 "- 56"]
    by (simp add: pow2_def)
  have second: "round_double (10808639105689191 / 36028797018963968)
      = Fin (1351079888211149 / 4503599627370496)"
    using round_double_eval [of "10808639105689191 / 36028797018963968" "- 54"
        5404319552844596]
    by (simp add: pow2_def)
  have big: "round_double 9007199254740992 = Fin 9007199254740992"
    using round_double_representable [of 4503599627370496 1]
    by (simp add: pow2_def)
  have bigger: "round_double 9007199254740993 = Fin 9007199254740992"
    using round_double_eval [of 9007199254740993 1 4503599627370496]
    by (simp add: pow2_def)
  show ?thesis
    by (simp add: metrics_def Let_def tenth fifth first second big bigger)
qed

text \<open>
  C1, amended. For every list of sales and of expenses, \<open>metrics\<close> returns the number of
  sales; totalRevenue, totalExpenses and piutang are the left-to-right double-precision
  sums (\<open>js_sum\<close>) of \<open>total_price\<close> over all sales, of \<open>total_cost\<close> over all expenses and
  of \<open>total_price\<close> over exactly the sales whose status is \<open>belum_bayar\<close>; profit is the
  double-precision difference totalRevenue - totalExpenses, with no floor. On two empty
  lists all five metrics are 0. When every amount is a whole number and the absolute
  values of all amounts together stay below \<open>2^53\<close>, the four totals are the exact sums
  and the exact difference. The function is total, so no input raises.
\<close>

theorem C1_metrics_sums:
  "totalSales (metrics sales expenses) = int (length sales)
   \<and> totalRevenue (metrics sales expenses) = js_sum (map total_price sales)
   \<and> totalExpenses (metrics sales expenses) = js_sum (map total_cost expenses)
   \<and> profit (metrics sales expenses)
       = js_sub (totalRevenue (metrics sales expenses)) (totalExpenses (metrics sales expenses))
   \<and> piutang (metrics sales expenses)
       = js_sum (map total_price (filter (\<lambda>s. status s = belum_bayar) sales))
   \<and> metrics [] [] =
       \<lparr>totalSales = 0, totalRevenue = Fin 0, totalExpenses = Fin 0, profit = Fin 0,
        piutang = Fin 0\<rparr>
   \<and> (whole_in_safe_range (map total_price sales @ map total_cost expenses) \<longrightarrow>
        totalRevenue (metrics sales expenses)
          = Fin (sum_list (map (\<lambda>s. num_val (total_price s)) sales))
        \<and> totalExpenses (metrics sales expenses)
          = Fin (sum_list (map (\<lambda>e. num_val (total_cost e)) expenses))
        \<and> profit (metrics sales expenses)
          = Fin (sum_list (map (\<lambda>s. num_val (total_price s)) sales)
                 - sum_list (map (\<lambda>e. num_val (total_cost e)) expenses))
        \<and> piutang (metrics sales expenses)
          = Fin (sum_list (map (\<lambda>s. num_val (total_price s))
                   (filter (\<lambda>s. status s = belum_bayar) sales))))"
proof -
  have sums: "totalSales (metrics sales expenses) = int (length sales)"
    "totalRevenue (metrics sales expenses) = js_sum (map total_price sales)"
    "totalExpenses (metrics sales expenses) = js_sum (map total_cost expenses)"
    "profit (metrics sales expenses)
       = js_sub (totalRevenue (metrics sales expenses)) (totalExpenses (metrics sales expenses))"
    "piutang (metrics sales expenses)
       = js_sum (map total_price (filter (\<lambda>s. status s = belum_bayar) sales))"
    by (simp_all add: metrics_def Let_def js_sum_def foldl_map)
  have empty: "metrics [] [] =
       \<lparr>totalSales = 0, totalRevenue = Fin 0, totalExpenses = Fin 0, profit = Fin 0,
        piutang = Fin 0\<rparr>"
    by (simp add: metrics_def Let_def js_sub_def)
  have exact: "totalRevenue (metrics sales expenses)
          = Fin (sum_list (map (\<lambda>s. num_val (total_price s)) sales))
        \<and> totalExpenses (metrics sales expenses)
          = Fin (sum_list (map (\<lambda>e. num_val (total_cost e)) expenses))
        \<and> profit (metrics sales expenses)
          = Fin (sum_list (map (\<lambda>s. num_val (total_price s)) sales)
                 - sum_list (map (\<lambda>e. num_val (total_cost e)) expenses))
        \<and> piutang (metrics sales expenses)
          = Fin (sum_list (map (\<lambda>s. num_val (total_price s))
                   (filter (\<lambda>s. status s = belum_bayar) sales)))"
    if safe: "whole_in_safe_range (map total_price sales @ map total_cost expenses)"
  proof -
    note parts = whole_in_safe_range_append [OF safe]
    from js_sum_whole [OF parts(1)] js_sum_whole [OF parts(2)] js_sub_sums_whole [OF safe]
      js_sum_whole [OF whole_in_safe_range_filter [OF parts(1)]]
    show ?thesis
      by (simp add: sums o_def)
  qed
  from sums empty exact show ?thesis
    by blast
qed

theorem C1_metrics_sums_witness:
  "whole_in_safe_range
     (map total_price
        [\<lparr>sale_id = 1, sold_at = 0, stock_item_id = None, item_name = ''Gelang'',
          unit_price = Fin 10000, qty = Fin 3, total_price = Fin 30000, buyer_name = None,
          status = lunas\<rparr>,
         \<lparr>sale_id = 2, sold_at = 0, stock_item_id = None, item_name = ''Kaos'',
          unit_price = Fin 20000, qty = Fin 1, total_price = Fin 20000, buyer_name = None,
          status = belum_bayar\<rparr>]
      @ map total_cost
        [\<lparr>expense_id = 1, bought_at = 0, description = None, total_cost = Fin 70000\<rparr>])
   \<and> totalRevenue (metrics
        [\<lparr>sale_id = 1, sold_at = 0, stock_item_id = None, item_name = ''Gelang'',
          unit_price = Fin 10000, qty = Fin 3, total_price = Fin 30000, buyer_name = None,
          status = lunas\<rparr>,
         \<lparr>sale_id = 2, sold_at = 0, stock_item_id = None, item_name = ''Kaos'',
          unit_price = Fin 20000, qty = Fin 1, total_price = Fin 20000, buyer_name = None,
          status = belum_bayar\<rparr>]
        [\<lparr>expense_id = 1, bought_at = 0, description = None, total_cost = Fin 70000\<rparr>])
      = Fin 50000
   \<and> totalExpenses (metrics
        [\<lparr>sale_id = 1, sold_at = 0, stock_item_id = None, item_name = ''Gelang'',
          unit_price = Fin 10000, qty = Fin 3, total_price = Fin 30000, buyer_name = None,
          status = lunas\<rparr>,
         \<lparr>sale_id = 2, sold_at = 0, stock_item_id = None, item_name = ''Kaos'',
          unit_price = Fin 20000, qty = Fin 1, total_price = Fin 20000, buyer_name = None,
          status = belum_bayar\<rparr>]
        [\<lparr>expense_id = 1, bought_at = 0, description = None, total_cost = Fin 70000\<rparr>])
      = Fin 70000
   \<and> profit (metrics
        [\<lparr>sale_id = 1, sold_at = 0, stock_item_id = None, item_name = ''Gelang'',
          unit_price = Fin 10000, qty = Fin 3, total_price = Fin 30000, buyer_name = None,
          status = lunas\<rparr>,
         \<lparr>sale_id = 2, sold_at = 0, stock_item_id = None, item_name = ''Kaos'',
          unit_price = Fin 20000, qty = Fin 1, total_price = Fin 20000, buyer_name = None,
          status = belum_bayar\<rparr>]
        [\<lparr>expense_id = 1, bought_at = 0, description = None, total_cost = Fin 70000\<rparr>])
      = Fin (- 20000)
   \<and> piutang (metrics
        [\<lparr>sale_id = 1, sold_at = 0, stock_item_id = None, item_name = ''Gelang'',
          unit_price = Fin 10000, qty = Fin 3, total_price = Fin 30000, buyer_name = None,
          status = lunas\<rparr>,
         \<lparr>sale_id = 2, sold_at = 0, stock_item_id = None, item_name = ''Kaos'',
          unit_price = Fin 20000, qty = Fin 1, total_price = Fin 20000, buyer_name = None,
          status = belum_bayar\<rparr>]
        [\<lparr>expense_id = 1, bought_at = 0, description = None, total_cost = Fin 70000\<rparr>])
      = Fin 20000"
proof -
  let ?sales = "[\<lparr>sale_id = 1, sold_at = 0, stock_item_id = None, item_name = ''Gelang'',
          unit_price = Fin 10000, qty = Fin 3, total_price = Fin 30000, buyer_name = None,
          status = lunas\<rparr>,
         \<lparr>sale_id = 2, sold_at = 0, stock_item_id = None, item_name = ''Kaos'',
          unit_price = Fin 20000, qty = Fin 1, total_price = Fin 20000, buyer_name = None,
          status = belum_bayar\<rparr>]"
  let ?expenses = "[\<lparr>expense_id = 1, bought_at = 0, description = None,
          total_cost = Fin 70000\<rparr>]"
  have safe: "whole_in_safe_range (map total_price ?sales @ map total_cost ?expenses)"
    by (simp add: whole_in_safe_range_def)
  from C1_metrics_sums [of ?sales ?expenses]
  have "whole_in_safe_range (map total_price ?sales @ map total_cost ?expenses) \<longrightarrow>
        totalRevenue (metrics ?sales ?expenses)
          = Fin (sum_list (map (\<lambda>s. num_val (total_price s)) ?sales))
        \<and> totalExpenses (metrics ?sales ?expenses)
          = Fin (sum_list (map (\<lambda>e. num_val (total_cost e)) ?expenses))
        \<and> profit (metrics ?sales ?expenses)
          = Fin (sum_list (map (\<lambda>s. num_val (total_price s)) ?sales)
                 - sum_list (map (\<lambda>e. num_val (total_cost e)) ?expenses))
        \<and> piutang (metrics ?sales ?expenses)
          = Fin (sum_list (map (\<lambda>s. num_val (total_price s))
                   (filter (\<lambda>s. status s = belum_bayar) ?sales)))"
    by (elim conjE)
  with safe show ?thesis
    by simp
qed

text \<open>
  C6, as stated, fails in its first half: piutang is a double-precision sum taken in
  the order of the list, so it need not grow by exactly the sale's \<open>total_price\<close>. For
  the sales priced 0.1 (paid), 0.2 and 0.3 (both unpaid), each held as the nearest
  double, piutang is 0.5; after changing only the status of the first sale to
  \<open>belum_bayar\<close> it is 0.6000000000000001 (\<open>1351079888211149 / 2^51\<close>), which is neither
  the exact sum of 0.5 and the price nor their double-precision sum 0.6
  (\<open>5404319552844595 / 2^53\<close>).
\<close>

theorem C6_inexact_piutang_counterexample:
  "piutang (metrics
      [\<lparr>sale_id = 1, sold_at = 0, stock_item_id = None, item_name = ''Pita'',
        unit_price = Fin (3602879701896397 / 36028797018963968), qty = Fin 1,
        total_price = Fin (3602879701896397 / 36028797018963968), buyer_name = None,
        status = lunas\<rparr>,
       \<lparr>sale_id = 2, sold_at = 0, stock_item_id = None, item_name = ''Manik'',
        unit_price = Fin (3602879701896397 / 18014398509481984), qty = Fin 1,
        total_price = Fin (3602879701896397 / 18014398509481984), buyer_name = None,
        status = belum_bayar\<rparr>,
       \<lparr>sale_id = 3, sold_at = 0, stock_item_id = None, item_name = ''Tali'',
        unit_price = Fin (5404319552844595 / 18014398509481984), qty = Fin 1,
        total_price = Fin (5404319552844595 / 18014398509481984), buyer_name = None,
        status = belum_bayar\<rparr>] []) = Fin (1 / 2)
   \<and> piutang (metrics
      [\<lparr>sale_id = 1, sold_at = 0, stock_item_id = None, item_name = ''Pita'',
        unit_price = Fin (3602879701896397 / 36028797018963968), qty = Fin 1,
        total_price = Fin (3602879701896397 / 36028797018963968), buyer_name = None,
        status = belum_bayar\<rparr>,
       \<lparr>sale_id = 2, sold_at = 0, stock_item_id = None, item_name = ''Manik'',
        unit_price = Fin (3602879701896397 / 18014398509481984), qty = Fin 1,
        total_price = Fin (3602879701896397 / 18014398509481984), buyer_name = None,
        status = belum_bayar\<rparr>,
       \<lparr>sale_id = 3, sold_at = 0, stock_item_id = None, item_name = ''Tali'',
        unit_price = Fin (5404319552844595 / 18014398509481984), qty = Fin 1,
        total_price = Fin (5404319552844595 / 18014398509481984), buyer_name = None,
        status = belum_bayar\<rparr>] []) = Fin (1351079888211149 / 2251799813685248)
   \<and> (1351079888211149 / 2251799813685248 :: rat)
       \<noteq> 1 / 2 + 3602879701896397 / 36028797018963968
   \<and> js_add (Fin (1 / 2)) (Fin (3602879701896397 / 36028797018963968))
       = Fin (5404319552844595 / 9007199254740992)
   \<and> (1351079888211149 / 2251799813685248 :: rat) \<noteq> 5404319552844595 / 9007199254740992
   \<and> round_double (3 / 10) = Fin (5404319552844595 / 18014398509481984)"
proof -
  have r1: "round_double (3602879701896397 / 36028797018963968)
      = Fin (3602879701896397 / 36028797018963968)"
    using round_double_representable [of 7205759403792794 "- 56"]
    by (simp add: pow2_def)
  have r2: "round_double (3602879701896397 / 18014398509481984)
      = Fin (3602879701896397 / 18014398509481984)"
    using round_double_representable [of 7205759403792794 "- 55"]
    by (simp add: pow2_def)
  have r3: "round_double (1 / 2) = Fin (1 / 2)"
    using round_double_representable [of 4503599627370496 "- 53"]
    by (simp add: pow2_def)
  have r4: "round_double (10808639105689191 / 36028797018963968)
      = Fin (1351079888211149 / 4503599627370496)"
    using round_double_eval [of "10808639105689191 / 36028797018963968" "- 54"
        5404319552844596]
    by (simp add: pow2_def)
  have r5: "round_double (10808639105689191 / 18014398509481984)
      = Fin (1351079888211149 / 2251799813685248)"
    using round_double_eval [of "10808639105689191 / 18014398509481984" "- 53"
        5404319552844596]
    by (simp add: pow2_def)
  have r6: "round_double (21617278211378381 / 36028797018963968)
      = Fin (5404319552844595 / 9007199254740992)"
    using round_double_eval [of "21617278211378381 / 36028797018963968" "- 53"
        5404319552844595]
    by (simp add: pow2_def)
  have r7: "round_double (3 / 10) = Fin (5404319552844595 / 18014398509481984)"
    using round_double_eval [of "3 / 10" "- 54" 5404319552844595]
    by (simp add: pow2_def)
  show ?thesis
    by (simp add: metrics_def Let_def r1 r2 r3 r4 r5 r6 r7)
qed

text \<open>
  C6, amended. For every list of sales and every position \<open>i\<close> in it whose sale has status
  \<open>lunas\<close>: recomputing \<open>metrics\<close> after changing only the status of that sale to
  \<open>belum_bayar\<close> gives the same totalRevenue; and when every \<open>total_price\<close> is a whole
  number and their absolute values together stay below \<open>2^53\<close>, it gives a piutang
  larger by exactly that sale's \<open>total_price\<close>.
\<close>

theorem C6_status_change:
  assumes "i < length sales" and "status (sales ! i) = lunas"
  shows "totalRevenue (metrics (sales[i := (sales ! i)\<lparr>status := belum_bayar\<rparr>]) expenses)
           = totalRevenue (metrics sales expenses)
         \<and> (whole_in_safe_range (map total_price sales) \<longrightarrow>
              piutang (metrics (sales[i := (sales ! i)\<lparr>status := belum_bayar\<rparr>]) expenses)
                = js_add (piutang (metrics sales expenses)) (total_price (sales ! i))
              \<and> num_val (piutang (metrics (sales[i := (sales ! i)\<lparr>status := belum_bayar\<rparr>])
                    expenses))
                = num_val (piutang (metrics sales expenses))
                  + num_val (total_price (sales ! i)))"
proof -
  let ?changed = "sales[i := (sales ! i)\<lparr>status := belum_bayar\<rparr>]"
  let ?unpaid = "filter (\<lambda>s. status s = belum_bayar)"
  note prices = status_change_prices [OF assms(1)]
  have revenue: "totalRevenue (metrics ?changed expenses) = totalRevenue (metrics sales expenses)"
    by (simp only: metrics_sel prices)
  have unpaid: "piutang (metrics ?changed expenses)
                = js_add (piutang (metrics sales expenses)) (total_price (sales ! i))
              \<and> num_val (piutang (metrics ?changed expenses))
                = num_val (piutang (metrics sales expenses))
                  + num_val (total_price (sales ! i))"
    if safe: "whole_in_safe_range (map total_price sales)"
  proof -
    from safe prices have safe': "whole_in_safe_range (map total_price ?changed)"
      by simp
    have before: "piutang (metrics sales expenses)
        = Fin (sum_list (map (\<lambda>s. num_val (total_price s)) (?unpaid sales)))"
      using js_sum_whole [OF whole_in_safe_range_filter [OF safe]]
      by (simp add: metrics_sel o_def)
    have after: "piutang (metrics ?changed expenses)
        = Fin (sum_list (map (\<lambda>s. num_val (total_price s)) (?unpaid ?changed)))"
      using js_sum_whole [OF whole_in_safe_range_filter [OF safe']]
      by (simp add: metrics_sel o_def)
    from safe assms(1) have "is_whole (total_price (sales ! i))"
      by (simp add: whole_in_safe_range_def list_all_iff)
    then obtain n where n: "total_price (sales ! i) = Fin (of_int n)"
      unfolding is_whole_iff by blast
    have "round_double (sum_list (map (\<lambda>s. num_val (total_price s)) (?unpaid ?changed)))
        = Fin (sum_list (map (\<lambda>s. num_val (total_price s)) (?unpaid ?changed)))"
      using round_double_whole_sum [OF whole_in_safe_range_filter [OF safe']]
      by (simp add: o_def)
    then have "js_add (piutang (metrics sales expenses)) (total_price (sales ! i))
        = Fin (sum_list (map (\<lambda>s. num_val (total_price s)) (?unpaid ?changed)))"
      unfolding before status_change_unpaid_sum [OF assms] n by simp
    with after before status_change_unpaid_sum [OF assms] show ?thesis
      by simp
  qed
  from revenue unpaid show ?thesis
    by blast
qed

theorem C6_status_change_witness:
  "whole_in_safe_range (map total_price
      [\<lparr>sale_id = 1, sold_at = 0, stock_item_id = None, item_name = ''Gelang'',
        unit_price = Fin 25000, qty = Fin 2, total_price = Fin 50000, buyer_name = None,
        status = lunas\<rparr>,
       \<lparr>sale_id = 2, sold_at = 0, stock_item_id = None, item_name = ''Kaos'',
        unit_price = Fin 20000, qty = Fin 1, total_price = Fin 20000, buyer_name = None,
        status = belum_bayar\<rparr>])
   \<and> piutang (metrics
      [\<lparr>sale_id = 1, sold_at = 0, stock_item_id = None, item_name = ''Gelang'',
        unit_price = Fin 25000, qty = Fin 2, total_price = Fin 50000, buyer_name = None,
        status = lunas\<rparr>,
       \<lparr>sale_id = 2, sold_at = 0, stock_item_id = None, item_name = ''Kaos'',
        unit_price = Fin 20000, qty = Fin 1, total_price = Fin 20000, buyer_name = None,
        status = belum_bayar\<rparr>] []) = Fin 20000
   \<and> num_val (piutang (metrics
      [\<lparr>sale_id = 1, sold_at = 0, stock_item_id = None, item_name = ''Gelang'',
        unit_price = Fin 25000, qty = Fin 2, total_price = Fin 50000, buyer_name = None,
        status = belum_bayar\<rparr>,
       \<lparr>sale_id = 2, sold_at = 0, stock_item_id = None, item_name = ''Kaos'',
        unit_price = Fin 20000, qty = Fin 1, total_price = Fin 20000, buyer_name = None,
        status = belum_bayar\<rparr>] [])) = 20000 + 50000
   \<and> totalRevenue (metrics
      [\<lparr>sale_id = 1, sold_at = 0, stock_item_id = None, item_name = ''Gelang'',
        unit_price = Fin 25000, qty = Fin 2, total_price = Fin 50000, buyer_name = None,
        status = belum_bayar\<rparr>,
       \<lparr>sale_id = 2, sold_at = 0, stock_item_id = None, item_name = ''Kaos'',
        unit_price = Fin 20000, qty = Fin 1, total_price = Fin 20000, buyer_name = None,
        status = belum_bayar\<rparr>] [])
     = totalRevenue (metrics
      [\<lparr>sale_id = 1, sold_at = 0, stock_item_id = None, item_name = ''Gelang'',
        unit_price = Fin 25000, qty = Fin 2, total_price = Fin 50000, buyer_name = None,
        status = lunas\<rparr>,
       \<lparr>sale_id = 2, sold_at = 0, stock_item_id = None, item_name = ''Kaos'',
        unit_price = Fin 20000, qty = Fin 1, total_price = Fin 20000, buyer_name = None,
        status = belum_bayar\<rparr>] [])"
proof -
  let ?sales = "[\<lparr>sale_id = 1, sold_at = 0, stock_item_id = None, item_name = ''Gelang'',
        unit_price = Fin 25000, qty = Fin 2, total_price = Fin 50000, buyer_name = None,
        status = lunas\<rparr>,
       \<lparr>sale_id = 2, sold_at = 0, stock_item_id = None, item_name = ''Kaos'',
        unit_price = Fin 20000, qty = Fin 1, total_price = Fin 20000, buyer_name = None,
        status = belum_bayar\<rparr>]"
  have safe: "whole_in_safe_range (map total_price ?sales)"
    by (simp add: whole_in_safe_range_def)
  have before: "piutang (metrics ?sales []) = Fin 20000"
    by (simp add: metrics_def Let_def round_double_numeral)
  have "0 < length ?sales" "status (?sales ! 0) = lunas"
    by simp_all
  from C6_status_change [OF this, of "[]"] safe before show ?thesis
    by (simp add: round_double_numeral)
qed

text \<open>
  C4. The claim asks the revenue metric to leave out the totals of the capital-injection
  rows. The dashboard does not: \<open>metrics\<close> of \<open>HomePage\<close> and the \<open>metrics\<close> of
  \<open>DashboardSection\<close>, under every filter, add \<open>total_price\<close> over all the rows they
  aggregate, with no test of the item name. For a capital-injection row \<open>c\<close> listed after
  any sales: totalRevenue of \<open>HomePage\<close> is the previous totalRevenue plus
  \<open>total_price c\<close>; \<open>DashboardSection\<close> computes, for every cutoff, the \<open>metrics\<close> of the
  sales and expenses not older than the cutoff, so its totalRevenue grows by
  \<open>total_price c\<close> under the filter "all" and under every cutoff not after \<open>sold_at c\<close>,
  and is unchanged under a later cutoff. The ledger export over the same rows does
  separate capital: its "Penjualan" is unchanged by \<open>c\<close> and its "Total Modal" grows by
  \<open>total_price c\<close>.
\<close>

theorem C4_dashboard_revenue_counts_capital:
  assumes "item_name c = ''Modal / Dana Awal''"
  shows "totalRevenue (metrics (sales @ [c]) expenses)
           = js_add (totalRevenue (metrics sales expenses)) (total_price c)
         \<and> totalSales (metrics (sales @ [c]) expenses)
           = totalSales (metrics sales expenses) + 1
         \<and> section_metrics cutoff (sales @ [c]) expenses
           = metrics (case cutoff of
                        Some t \<Rightarrow> filter (\<lambda>s. t \<le> sold_at s) (sales @ [c])
                      | None \<Rightarrow> sales @ [c])
               (case cutoff of
                  Some t \<Rightarrow> filter (\<lambda>e. t \<le> bought_at e) expenses
                | None \<Rightarrow> expenses)
         \<and> totalRevenue (section_metrics None (sales @ [c]) expenses)
           = js_add (totalRevenue (section_metrics None sales expenses)) (total_price c)
         \<and> (\<forall>t. t \<le> sold_at c \<longrightarrow>
               totalRevenue (section_metrics (Some t) (sales @ [c]) expenses)
                 = js_add (totalRevenue (section_metrics (Some t) sales expenses))
                     (total_price c))
         \<and> (\<forall>t. sold_at c < t \<longrightarrow>
               section_metrics (Some t) (sales @ [c]) expenses
                 = section_metrics (Some t) sales expenses)
         \<and> penjualan (ledger_header (sales @ [c]) expenses)
           = penjualan (ledger_header sales expenses)
         \<and> total_modal (ledger_header (sales @ [c]) expenses)
           = js_add (total_modal (ledger_header sales expenses)) (total_price c)"
proof -
  have home: "totalRevenue (metrics (sales @ [c]) expenses)
           = js_add (totalRevenue (metrics sales expenses)) (total_price c)"
    "totalSales (metrics (sales @ [c]) expenses) = totalSales (metrics sales expenses) + 1"
    by (simp_all add: metrics_sel js_sum_snoc)
  have all: "totalRevenue (section_metrics None (sales @ [c]) expenses)
           = js_add (totalRevenue (section_metrics None sales expenses)) (total_price c)"
    by (simp add: section_metrics_eq metrics_sel js_sum_snoc)
  have counted: "totalRevenue (section_metrics (Some t) (sales @ [c]) expenses)
                 = js_add (totalRevenue (section_metrics (Some t) sales expenses))
                     (total_price c)"
    if "t \<le> sold_at c" for t
    using that by (simp add: section_metrics_eq metrics_sel js_sum_snoc)
  have older: "section_metrics (Some t) (sales @ [c]) expenses
                 = section_metrics (Some t) sales expenses"
    if "sold_at c < t" for t
    using that by (simp add: section_metrics_eq)
  have ledger: "penjualan (ledger_header (sales @ [c]) expenses)
           = penjualan (ledger_header sales expenses)"
    "total_modal (ledger_header (sales @ [c]) expenses)
           = js_add (total_modal (ledger_header sales expenses)) (total_price c)"
    using assms by (simp_all add: ledger_header_sel js_sum_snoc)
  show ?thesis
    apply (intro conjI allI impI)
    using home all counted older ledger section_metrics_eq by blast+
qed

text \<open>
  A snapshot with one sale of 30000 followed by a capital injection of 100000 (the row
  \<open>handleSubmitModal\<close> inserts): the dashboard shows a revenue of 130000, under the
  filter "all" and under a cutoff before the injection alike, where the ledger export
  prints "Penjualan" 30000 and "Total Modal" 100000.
\<close>

theorem C4_dashboard_revenue_counts_capital_witness:
  "item_name \<lparr>sale_id = 2, sold_at = 99, stock_item_id = Some 9,
       item_name = ''Modal / Dana Awal'', unit_price = Fin 100000, qty = Fin 1,
       total_price = Fin 100000, buyer_name = None, status = lunas\<rparr>
     = ''Modal / Dana Awal''
   \<and> totalRevenue (metrics
        [\<lparr>sale_id = 1, sold_at = 70, stock_item_id = Some 1, item_name = ''Gelang'',
          unit_price = Fin 10000, qty = Fin 3, total_price = Fin 30000, buyer_name = None,
          status = lunas\<rparr>,
         \<lparr>sale_id = 2, sold_at = 99, stock_item_id = Some 9,
          item_name = ''Modal / Dana Awal'', unit_price = Fin 100000, qty = Fin 1,
          total_price = Fin 100000, buyer_name = None, status = lunas\<rparr>] []) = Fin 130000
   \<and> totalRevenue (section_metrics None
        [\<lparr>sale_id = 1, sold_at = 70, stock_item_id = Some 1, item_name = ''Gelang'',
          unit_price = Fin 10000, qty = Fin 3, total_price = Fin 30000, buyer_name = None,
          status = lunas\<rparr>,
         \<lparr>sale_id = 2, sold_at = 99, stock_item_id = Some 9,
          item_name = ''Modal / Dana Awal'', unit_price = Fin 100000, qty = Fin 1,
          total_price = Fin 100000, buyer_name = None, status = lunas\<rparr>] []) = Fin 130000
   \<and> (50 :: int) \<le> 99
   \<and> totalRevenue (section_metrics (Some 50)
        [\<lparr>sale_id = 1, sold_at = 70, stock_item_id = Some 1, item_name = ''Gelang'',
          unit_price = Fin 10000, qty = Fin 3, total_price = Fin 30000, buyer_name = None,
          status = lunas\<rparr>,
         \<lparr>sale_id = 2, sold_at = 99, stock_item_id = Some 9,
          item_name = ''Modal / Dana Awal'', unit_price = Fin 100000, qty = Fin 1,
          total_price = Fin 100000, buyer_name = None, status = lunas\<rparr>] []) = Fin 130000
   \<and> penjualan (ledger_header
        [\<lparr>sale_id = 1, sold_at = 70, stock_item_id = Some 1, item_name = ''Gelang'',
          unit_price = Fin 10000, qty = Fin 3, total_price = Fin 30000, buyer_name = None,
          status = lunas\<rparr>,
         \<lparr>sale_id = 2, sold_at = 99, stock_item_id = Some 9,
          item_name = ''Modal / Dana Awal'', unit_price = Fin 100000, qty = Fin 1,
          total_price = Fin 100000, buyer_name = None, status = lunas\<rparr>] []) = Fin 30000
   \<and> total_modal (ledger_header
        [\<lparr>sale_id = 1, sold_at = 70, stock_item_id = Some 1, item_name = ''Gelang'',
          unit_price = Fin 10000, qty = Fin 3, total_price = Fin 30000, buyer_name = None,
          status = lunas\<rparr>,
         \<lparr>sale_id = 2, sold_at = 99, stock_item_id = Some 9,
          item_name = ''Modal / Dana Awal'', unit_price = Fin 100000, qty = Fin 1,
          total_price = Fin 100000, buyer_name = None, status = lunas\<rparr>] []) = Fin 100000"
proof -
  let ?g = "\<lparr>sale_id = 1, sold_at = 70, stock_item_id = Some 1, item_name = ''Gelang'',
          unit_price = Fin 10000, qty = Fin 3, total_price = Fin 30000, buyer_name = None,
          status = lunas\<rparr>"
  let ?c = "\<lparr>sale_id = 2, sold_at = 99, stock_item_id = Some 9,
          item_name = ''Modal / Dana Awal'', unit_price = Fin 100000, qty = Fin 1,
          total_price = Fin 100000, buyer_name = None, status = lunas\<rparr>"
  have capital: "item_name ?c = ''Modal / Dana Awal''"
    by simp
  have before: "totalRevenue (metrics [?g] []) = Fin 30000"
    "totalRevenue (section_metrics None [?g] []) = Fin 30000"
    "totalRevenue (section_metrics (Some 50) [?g] []) = Fin 30000"
    "penjualan (ledger_header [?g] []) = Fin 30000"
    "total_modal (ledger_header [?g] []) = Fin 0"
    by (simp_all add: metrics_def section_metrics_def ledger_header_def Let_def
        round_double_numeral)
  from C4_dashboard_revenue_counts_capital [OF capital, of "[?g]" "[]"]
  have "totalRevenue (metrics ([?g] @ [?c]) [])
           = js_add (totalRevenue (metrics [?g] [])) (total_price ?c)"
    "totalRevenue (section_metrics None ([?g] @ [?c]) [])
           = js_add (totalRevenue (section_metrics None [?g] [])) (total_price ?c)"
    "50 \<le> sold_at ?c \<longrightarrow> totalRevenue (section_metrics (Some 50) ([?g] @ [?c]) [])
           = js_add (totalRevenue (section_metrics (Some 50) [?g] [])) (total_price ?c)"
    "penjualan (ledger_header ([?g] @ [?c]) []) = penjualan (ledger_header [?g] [])"
    "total_modal (ledger_header ([?g] @ [?c]) [])
           = js_add (total_modal (ledger_header [?g] [])) (total_price ?c)"
    by blast+
  then show ?thesis
    by (simp add: before round_double_numeral)
qed

text \<open>
  C5, as stated, fails where it asks for sums: the lines are double-precision sums taken
  in the order of the snapshot, so a capital-injection sale need not contribute exactly
  its total. With two capital injections of 0.2 and 0.3 in range (each held as the
  nearest double) "Total Modal" is 0.5; with a newer capital injection of 0.1 listed
  before them it is 0.6000000000000001 (\<open>1351079888211149 / 2^51\<close>), which is not 0.5
  plus the total of the new row.
\<close>

theorem C5_inexact_modal_counterexample:
  "total_modal (exportExcel 10 12
      [\<lparr>sale_id = 2, sold_at = 11 * msPerDay + 2, stock_item_id = Some 9,
        item_name = ''Modal / Dana Awal'',
        unit_price = Fin (3602879701896397 / 18014398509481984), qty = Fin 1,
        total_price = Fin (3602879701896397 / 18014398509481984), buyer_name = None,
        status = lunas\<rparr>,
       \<lparr>sale_id = 1, sold_at = 11 * msPerDay + 1, stock_item_id = Some 9,
        item_name = ''Modal / Dana Awal'',
        unit_price = Fin (5404319552844595 / 18014398509481984), qty = Fin 1,
        total_price = Fin (5404319552844595 / 18014398509481984), buyer_name = None,
        status = lunas\<rparr>] []) = Fin (1 / 2)
   \<and> total_modal (exportExcel 10 12
      [\<lparr>sale_id = 3, sold_at = 11 * msPerDay + 3, stock_item_id = Some 9,
        item_name = ''Modal / Dana Awal'',
        unit_price = Fin (3602879701896397 / 36028797018963968), qty = Fin 1,
        total_price = Fin (3602879701896397 / 36028797018963968), buyer_name = None,
        status = lunas\<rparr>,
       \<lparr>sale_id = 2, sold_at = 11 * msPerDay + 2, stock_item_id = Some 9,
        item_name = ''Modal / Dana Awal'',
        unit_price = Fin (3602879701896397 / 18014398509481984), qty = Fin 1,
        total_price = Fin (3602879701896397 / 18014398509481984), buyer_name = None,
        status = lunas\<rparr>,
       \<lparr>sale_id = 1, sold_at = 11 * msPerDay + 1, stock_item_id = Some 9,
        item_name = ''Modal / Dana Awal'',
        unit_price = Fin (5404319552844595 / 18014398509481984), qty = Fin 1,
        total_price = Fin (5404319552844595 / 18014398509481984), buyer_name = None,
        status = lunas\<rparr>] []) = Fin (1351079888211149 / 2251799813685248)
   \<and> (1351079888211149 / 2251799813685248 :: rat)
       \<noteq> 1 / 2 + 3602879701896397 / 36028797018963968"
proof -
  have r1: "round_double (3602879701896397 / 36028797018963968)
      = Fin (3602879701896397 / 36028797018963968)"
    using round_double_representable [of 7205759403792794 "- 56"]
    by (simp add: pow2_def)
  have r2: "round_double (3602879701896397 / 18014398509481984)
      = Fin (3602879701896397 / 18014398509481984)"
    using round_double_representable [of 7205759403792794 "- 55"]
    by (simp add: pow2_def)
  have r3: "round_double (1 / 2) = Fin (1 / 2)"
    using round_double_representable [of 4503599627370496 "- 53"]
    by (simp add: pow2_def)
  have r4: "round_double (10808639105689191 / 36028797018963968)
      = Fin (1351079888211149 / 4503599627370496)"
    using round_double_eval [of "10808639105689191 / 36028797018963968" "- 54"
        5404319552844596]
    by (simp add: pow2_def)
  have r5: "round_double (10808639105689191 / 18014398509481984)
      = Fin (1351079888211149 / 2251799813685248)"
    using round_double_eval [of "10808639105689191 / 18014398509481984" "- 53"
        5404319552844596]
    by (simp add: pow2_def)
  show ?thesis
    by (simp add: exportExcel_def ledger_header_def filteredSales_def local_datetime_def
        msPerDay_def Let_def r1 r2 r3 r4 r5)
qed

text \<open>
  C5, amended. In the extended ledger export, over the range-filtered sales and
  expenses: "Total Penjualan" counts the sales whose item name is not
  "Modal / Dana Awal"; "Penjualan" is the double-precision sum of \<open>total_price\<close> over
  exactly those sales, "Total Modal" the double-precision sum over exactly the sales
  whose item name is "Modal / Dana Awal", "Pengeluaran" the double-precision sum of the
  expenses, and "Pendapatan Bersih" the double-precision difference of "Penjualan" and
  "Pengeluaran"; \<open>exportPdf\<close> prints the same numbers as \<open>exportExcel\<close>. One more
  capital-injection sale \<open>c\<close> inside the range changes no line but "Total Modal". When
  every amount is a whole number and the absolute values of all amounts together stay
  below \<open>2^53\<close>, the sums and the difference are exact, and the sale \<open>c\<close> adds exactly
  \<open>total_price c\<close> to "Total Modal".
\<close>

theorem C5_ledger_lines:
  "total_penjualan (exportExcel fromDate toDate sales expenses)
     = int (length (filter (\<lambda>s. item_name s \<noteq> ''Modal / Dana Awal'')
              (filteredSales fromDate toDate sales)))
   \<and> penjualan (exportExcel fromDate toDate sales expenses)
     = js_sum (map total_price (filter (\<lambda>s. item_name s \<noteq> ''Modal / Dana Awal'')
                 (filteredSales fromDate toDate sales)))
   \<and> total_modal (exportExcel fromDate toDate sales expenses)
     = js_sum (map total_price (filter (\<lambda>s. item_name s = ''Modal / Dana Awal'')
                 (filteredSales fromDate toDate sales)))
   \<and> pengeluaran (exportExcel fromDate toDate sales expenses)
     = js_sum (map total_cost (filteredExpenses fromDate toDate expenses))
   \<and> pendapatan_bersih (exportExcel fromDate toDate sales expenses)
     = js_sub (penjualan (exportExcel fromDate toDate sales expenses))
         (pengeluaran (exportExcel fromDate toDate sales expenses))
   \<and> exportPdf fromDate toDate sales expenses = exportExcel fromDate toDate sales expenses
   \<and> (item_name c = ''Modal / Dana Awal''
        \<and> local_datetime fromDate 0 0 0 \<le> sold_at c
        \<and> sold_at c \<le> local_datetime toDate 23 59 59 \<longrightarrow>
        exportExcel fromDate toDate (c # sales) expenses =
          (exportExcel fromDate toDate sales expenses)
            \<lparr>total_modal := total_modal (exportExcel fromDate toDate (c # sales) expenses)\<rparr>
        \<and> (whole_in_safe_range (map total_price (c # sales)) \<longrightarrow>
             total_modal (exportExcel fromDate toDate (c # sales) expenses)
               = Fin (num_val (total_modal (exportExcel fromDate toDate sales expenses))
                      + num_val (total_price c))))
   \<and> (whole_in_safe_range (map total_price sales @ map total_cost expenses) \<longrightarrow>
        penjualan (exportExcel fromDate toDate sales expenses)
          = Fin (sum_list (map (\<lambda>s. num_val (total_price s))
                   (filter (\<lambda>s. item_name s \<noteq> ''Modal / Dana Awal'')
                      (filteredSales fromDate toDate sales))))
        \<and> total_modal (exportExcel fromDate toDate sales expenses)
          = Fin (sum_list (map (\<lambda>s. num_val (total_price s))
                   (filter (\<lambda>s. item_name s = ''Modal / Dana Awal'')
                      (filteredSales fromDate toDate sales))))
        \<and> pengeluaran (exportExcel fromDate toDate sales expenses)
          = Fin (sum_list (map (\<lambda>e. num_val (total_cost e))
                   (filteredExpenses fromDate toDate expenses)))
        \<and> pendapatan_bersih (exportExcel fromDate toDate sales expenses)
          = Fin (sum_list (map (\<lambda>s. num_val (total_price s))
                   (filter (\<lambda>s. item_name s \<noteq> ''Modal / Dana Awal'')
                      (filteredSales fromDate toDate sales)))
                 - sum_list (map (\<lambda>e. num_val (total_cost e))
                     (filteredExpenses fromDate toDate expenses))))"
proof -
  let ?modal = "filter (\<lambda>s. item_name s = ''Modal / Dana Awal'')"
  have lines: "total_penjualan (exportExcel fromDate toDate sales expenses)
     = int (length (filter (\<lambda>s. item_name s \<noteq> ''Modal / Dana Awal'')
              (filteredSales fromDate toDate sales)))"
    "penjualan (exportExcel fromDate toDate sales expenses)
     = js_sum (map total_price (filter (\<lambda>s. item_name s \<noteq> ''Modal / Dana Awal'')
                 (filteredSales fromDate toDate sales)))"
    "total_modal (exportExcel fromDate toDate sales expenses)
     = js_sum (map total_price (?modal (filteredSales fromDate toDate sales)))"
    "pengeluaran (exportExcel fromDate toDate sales expenses)
     = js_sum (map total_cost (filteredExpenses fromDate toDate expenses))"
    "pendapatan_bersih (exportExcel fromDate toDate sales expenses)
     = js_sub (penjualan (exportExcel fromDate toDate sales expenses))
         (pengeluaran (exportExcel fromDate toDate sales expenses))"
    by (simp_all add: exportExcel_def ledger_header_sel)
  have pdf: "exportPdf fromDate toDate sales expenses
      = exportExcel fromDate toDate sales expenses"
    by (simp add: exportPdf_def exportExcel_def)
  have capital: "exportExcel fromDate toDate (c # sales) expenses =
          (exportExcel fromDate toDate sales expenses)
            \<lparr>total_modal := total_modal (exportExcel fromDate toDate (c # sales) expenses)\<rparr>
        \<and> (whole_in_safe_range (map total_price (c # sales)) \<longrightarrow>
             total_modal (exportExcel fromDate toDate (c # sales) expenses)
               = Fin (num_val (total_modal (exportExcel fromDate toDate sales expenses))
                      + num_val (total_price c)))"
    if c: "item_name c = ''Modal / Dana Awal''" "local_datetime fromDate 0 0 0 \<le> sold_at c"
      "sold_at c \<le> local_datetime toDate 23 59 59"
  proof -
    from c have kept: "filteredSales fromDate toDate (c # sales)
        = c # filteredSales fromDate toDate sales"
      by (simp add: filteredSales_def Let_def)
    with c have only_modal: "exportExcel fromDate toDate (c # sales) expenses =
          (exportExcel fromDate toDate sales expenses)
            \<lparr>total_modal := total_modal (exportExcel fromDate toDate (c # sales) expenses)\<rparr>"
      by (simp add: exportExcel_def ledger_header_def Let_def)
    have exact: "total_modal (exportExcel fromDate toDate (c # sales) expenses)
               = Fin (num_val (total_modal (exportExcel fromDate toDate sales expenses))
                      + num_val (total_price c))"
      if safe: "whole_in_safe_range (map total_price (c # sales))"
    proof -
      from safe have safe_tl: "whole_in_safe_range (map total_price sales)"
        using whole_in_safe_range_tl [of "total_price c" "map total_price sales"] by simp
      let ?P = "\<lambda>s. (local_datetime fromDate 0 0 0 \<le> sold_at s
                      \<and> sold_at s \<le> local_datetime toDate 23 59 59)
                    \<and> item_name s = ''Modal / Dana Awal''"
      have modal: "?modal (filteredSales fromDate toDate xs) = filter ?P xs" for xs
        by (simp only: filteredSales_def Let_def filter_filter)
      from js_sum_whole [OF whole_in_safe_range_filter [OF safe, of ?P]]
      have new: "js_sum (map total_price (?modal (filteredSales fromDate toDate (c # sales))))
          = Fin (sum_list (map num_val (map total_price
                   (?modal (filteredSales fromDate toDate (c # sales))))))"
        by (simp only: modal)
      from js_sum_whole [OF whole_in_safe_range_filter [OF safe_tl, of ?P]]
      have old: "js_sum (map total_price (?modal (filteredSales fromDate toDate sales)))
          = Fin (sum_list (map num_val (map total_price
                   (?modal (filteredSales fromDate toDate sales)))))"
        by (simp only: modal)
      from new kept c
      have "js_sum (total_price c
                # map total_price (?modal (filteredSales fromDate toDate sales)))
          = Fin (num_val (total_price c) + sum_list (map num_val (map total_price
                   (?modal (filteredSales fromDate toDate sales)))))"
        by simp
      with c show ?thesis
        by (simp add: exportExcel_def ledger_header_sel old kept)
    qed
    with only_modal show ?thesis
      by blast
  qed
  have exact: "penjualan (exportExcel fromDate toDate sales expenses)
          = Fin (sum_list (map (\<lambda>s. num_val (total_price s))
                   (filter (\<lambda>s. item_name s \<noteq> ''Modal / Dana Awal'')
                      (filteredSales fromDate toDate sales))))
        \<and> total_modal (exportExcel fromDate toDate sales expenses)
          = Fin (sum_list (map (\<lambda>s. num_val (total_price s))
                   (filter (\<lambda>s. item_name s = ''Modal / Dana Awal'')
                      (filteredSales fromDate toDate sales))))
        \<and> pengeluaran (exportExcel fromDate toDate sales expenses)
          = Fin (sum_list (map (\<lambda>e. num_val (total_cost e))
                   (filteredExpenses fromDate toDate expenses)))
        \<and> pendapatan_bersih (exportExcel fromDate toDate sales expenses)
          = Fin (sum_list (map (\<lambda>s. num_val (total_price s))
                   (filter (\<lambda>s. item_name s \<noteq> ''Modal / Dana Awal'')
                      (filteredSales fromDate toDate sales)))
                 - sum_list (map (\<lambda>e. num_val (total_cost e))
                     (filteredExpenses fromDate toDate expenses)))"
    if "whole_in_safe_range (map total_price sales @ map total_cost expenses)"
    unfolding exportExcel_def
    by (intro conjI ledger_header_exact filtered_safe that)
  show ?thesis
    apply (intro conjI impI)
    using lines pdf capital exact by blast+
qed

theorem C5_ledger_lines_witness:
  "item_name \<lparr>sale_id = 2, sold_at = 10 * msPerDay + 5, stock_item_id = Some 9,
         item_name = ''Modal / Dana Awal'', unit_price = Fin 100000, qty = Fin 1,
         total_price = Fin 100000, buyer_name = None, status = lunas\<rparr>
     = ''Modal / Dana Awal''
   \<and> local_datetime 10 0 0 0 \<le> 10 * msPerDay + 5
   \<and> 10 * msPerDay + 5 \<le> local_datetime 12 23 59 59
   \<and> whole_in_safe_range [Fin 100000, Fin 30000, Fin 5000]
   \<and> exportExcel 10 12
       [\<lparr>sale_id = 1, sold_at = 11 * msPerDay, stock_item_id = Some 1,
         item_name = ''Gelang'', unit_price = Fin 10000, qty = Fin 3,
         total_price = Fin 30000, buyer_name = None, status = lunas\<rparr>]
       [\<lparr>expense_id = 1, bought_at = 11 * msPerDay, description = None,
         total_cost = Fin 5000\<rparr>]
     = \<lparr>total_penjualan = 1, penjualan = Fin 30000, total_modal = Fin 0,
        pengeluaran = Fin 5000, pendapatan_bersih = Fin 25000\<rparr>
   \<and> exportExcel 10 12
       [\<lparr>sale_id = 2, sold_at = 10 * msPerDay + 5, stock_item_id = Some 9,
         item_name = ''Modal / Dana Awal'', unit_price = Fin 100000, qty = Fin 1,
         total_price = Fin 100000, buyer_name = None, status = lunas\<rparr>,
        \<lparr>sale_id = 1, sold_at = 11 * msPerDay, stock_item_id = Some 1,
         item_name = ''Gelang'', unit_price = Fin 10000, qty = Fin 3,
         total_price = Fin 30000, buyer_name = None, status = lunas\<rparr>]
       [\<lparr>expense_id = 1, bought_at = 11 * msPerDay, description = None,
         total_cost = Fin 5000\<rparr>]
     = \<lparr>total_penjualan = 1, penjualan = Fin 30000, total_modal = Fin 100000,
        pengeluaran = Fin 5000, pendapatan_bersih = Fin 25000\<rparr>"
proof -
  let ?c = "\<lparr>sale_id = 2, sold_at = 10 * msPerDay + 5, stock_item_id = Some 9,
         item_name = ''Modal / Dana Awal'', unit_price = Fin 100000, qty = Fin 1,
         total_price = Fin 100000, buyer_name = None, status = lunas\<rparr>"
  let ?sales = "[\<lparr>sale_id = 1, sold_at = 11 * msPerDay, stock_item_id = Some 1,
         item_name = ''Gelang'', unit_price = Fin 10000, qty = Fin 3,
         total_price = Fin 30000, buyer_name = None, status = lunas\<rparr>]"
  let ?expenses = "[\<lparr>expense_id = 1, bought_at = 11 * msPerDay, description = None,
         total_cost = Fin 5000\<rparr>]"
  have range: "item_name ?c = ''Modal / Dana Awal''"
    "local_datetime 10 0 0 0 \<le> sold_at ?c" "sold_at ?c \<le> local_datetime 12 23 59 59"
    by (simp_all add: local_datetime_def msPerDay_def)
  have safe: "whole_in_safe_range [Fin 100000, Fin 30000, Fin 5000]"
    by (simp add: whole_in_safe_range_def)
  have before: "exportExcel 10 12 ?sales ?expenses
     = \<lparr>total_penjualan = 1, penjualan = Fin 30000, total_modal = Fin 0,
        pengeluaran = Fin 5000, pendapatan_bersih = Fin 25000\<rparr>"
    by (simp add: exportExcel_def ledger_header_def filteredSales_def filteredExpenses_def
        local_datetime_def msPerDay_def Let_def js_sub_def round_double_numeral)
  from safe whole_in_safe_range_append(1) [of "[Fin 100000, Fin 30000]" "[Fin 5000]"]
  have safe_sales: "whole_in_safe_range (map total_price (?c # ?sales))"
    by simp
  from C5_ledger_lines [of 10 12 ?sales ?expenses ?c] range safe_sales
  have "exportExcel 10 12 (?c # ?sales) ?expenses =
          (exportExcel 10 12 ?sales ?expenses)
            \<lparr>total_modal := total_modal (exportExcel 10 12 (?c # ?sales) ?expenses)\<rparr>"
    and "total_modal (exportExcel 10 12 (?c # ?sales) ?expenses)
               = Fin (num_val (total_modal (exportExcel 10 12 ?sales ?expenses))
                      + num_val (total_price ?c))"
    by blast+
  with before have "exportExcel 10 12 (?c # ?sales) ?expenses
     = \<lparr>total_penjualan = 1, penjualan = Fin 30000, total_modal = Fin 100000,
        pengeluaran = Fin 5000, pendapatan_bersih = Fin 25000\<rparr>"
    by simp
  with range safe before show ?thesis
    by simp
qed

text \<open>
  C7. The range filter keeps, of the sales (by \<open>sold_at\<close>) and independently of the
  expenses (by \<open>bought_at\<close>), exactly the records whose timestamp lies in the closed
  interval from 00:00:00 local on \<open>fromDate\<close> to 23:59:59 local on \<open>toDate\<close>, that is from
  \<open>fromDate * 86400000\<close> to \<open>toDate * 86400000 + 86399000\<close> milliseconds. When
  \<open>fromDate \<le> toDate\<close>, a record at 00:00:00 on \<open>fromDate\<close> or at 23:59:59 on \<open>toDate\<close>
  is kept; a record at 23:59:59 on the day before \<open>fromDate\<close> is never kept; and when
  \<open>fromDate > toDate\<close> both results are the empty list.
\<close>

theorem C7_range_filter:
  "filteredSales fromDate toDate sales =
     filter (\<lambda>s. fromDate * 86400000 \<le> sold_at s \<and> sold_at s \<le> toDate * 86400000 + 86399000)
       sales
   \<and> filteredExpenses fromDate toDate expenses =
     filter (\<lambda>e. fromDate * 86400000 \<le> bought_at e
                \<and> bought_at e \<le> toDate * 86400000 + 86399000) expenses
   \<and> (fromDate \<le> toDate \<longrightarrow>
        (\<forall>s \<in> set sales.
           sold_at s = local_datetime fromDate 0 0 0 \<or> sold_at s = local_datetime toDate 23 59 59
           \<longrightarrow> s \<in> set (filteredSales fromDate toDate sales))
        \<and> (\<forall>e \<in> set expenses.
           bought_at e = local_datetime fromDate 0 0 0
             \<or> bought_at e = local_datetime toDate 23 59 59
           \<longrightarrow> e \<in> set (filteredExpenses fromDate toDate expenses)))
   \<and> (\<forall>s. sold_at s = local_datetime (fromDate - 1) 23 59 59
          \<longrightarrow> s \<notin> set (filteredSales fromDate toDate sales))
   \<and> (\<forall>e. bought_at e = local_datetime (fromDate - 1) 23 59 59
          \<longrightarrow> e \<notin> set (filteredExpenses fromDate toDate expenses))
   \<and> (toDate < fromDate \<longrightarrow>
        filteredSales fromDate toDate sales = []
        \<and> filteredExpenses fromDate toDate expenses = [])"
proof -
  have sales_eq: "filteredSales fromDate toDate sales =
      filter (\<lambda>s. fromDate * 86400000 \<le> sold_at s
                 \<and> sold_at s \<le> toDate * 86400000 + 86399000) sales"
    by (simp add: filteredSales_def local_datetime_def msPerDay_def Let_def)
  have expenses_eq: "filteredExpenses fromDate toDate expenses =
      filter (\<lambda>e. fromDate * 86400000 \<le> bought_at e
                 \<and> bought_at e \<le> toDate * 86400000 + 86399000) expenses"
    by (simp add: filteredExpenses_def local_datetime_def msPerDay_def Let_def)
  have bounds: "fromDate \<le> toDate \<longrightarrow>
        (\<forall>s \<in> set sales.
           sold_at s = local_datetime fromDate 0 0 0 \<or> sold_at s = local_datetime toDate 23 59 59
           \<longrightarrow> s \<in> set (filteredSales fromDate toDate sales))
        \<and> (\<forall>e \<in> set expenses.
           bought_at e = local_datetime fromDate 0 0 0
             \<or> bought_at e = local_datetime toDate 23 59 59
           \<longrightarrow> e \<in> set (filteredExpenses fromDate toDate expenses))"
    unfolding sales_eq expenses_eq by (auto simp add: local_datetime_def msPerDay_def)
  have before_sales: "\<forall>s. sold_at s = local_datetime (fromDate - 1) 23 59 59
          \<longrightarrow> s \<notin> set (filteredSales fromDate toDate sales)"
    unfolding sales_eq by (auto simp add: local_datetime_def msPerDay_def)
  have before_expenses: "\<forall>e. bought_at e = local_datetime (fromDate - 1) 23 59 59
          \<longrightarrow> e \<notin> set (filteredExpenses fromDate toDate expenses)"
    unfolding expenses_eq by (auto simp add: local_datetime_def msPerDay_def)
  have empty: "toDate < fromDate \<longrightarrow>
        filteredSales fromDate toDate sales = []
        \<and> filteredExpenses fromDate toDate expenses = []"
    unfolding sales_eq expenses_eq by (auto simp add: filter_empty_conv)
  from sales_eq expenses_eq bounds before_sales before_expenses empty
  show ?thesis by blast
qed

theorem C7_range_filter_witness:
  "(10::int) \<le> 12
   \<and> filteredSales 10 12
       [\<lparr>sale_id = 1, sold_at = local_datetime 10 0 0 0, stock_item_id = None,
         item_name = ''a'', unit_price = Fin 1, qty = Fin 1, total_price = Fin 1, buyer_name = None,
         status = lunas\<rparr>,
        \<lparr>sale_id = 2, sold_at = local_datetime 12 23 59 59, stock_item_id = None,
         item_name = ''b'', unit_price = Fin 1, qty = Fin 1, total_price = Fin 1, buyer_name = None,
         status = lunas\<rparr>,
        \<lparr>sale_id = 3, sold_at = local_datetime 9 23 59 59, stock_item_id = None,
         item_name = ''c'', unit_price = Fin 1, qty = Fin 1, total_price = Fin 1, buyer_name = None,
         status = lunas\<rparr>]
     = [\<lparr>sale_id = 1, sold_at = local_datetime 10 0 0 0, stock_item_id = None,
         item_name = ''a'', unit_price = Fin 1, qty = Fin 1, total_price = Fin 1, buyer_name = None,
         status = lunas\<rparr>,
        \<lparr>sale_id = 2, sold_at = local_datetime 12 23 59 59, stock_item_id = None,
         item_name = ''b'', unit_price = Fin 1, qty = Fin 1, total_price = Fin 1, buyer_name = None,
         status = lunas\<rparr>]
   \<and> (12::int) < 13
   \<and> filteredExpenses 13 12
       [\<lparr>expense_id = 1, bought_at = local_datetime 12 12 0 0, description = None,
         total_cost = Fin 7\<rparr>] = []"
  using C7_range_filter [of 10 12
      "[\<lparr>sale_id = 1, sold_at = local_datetime 10 0 0 0, stock_item_id = None,
         item_name = ''a'', unit_price = Fin 1, qty = Fin 1, total_price = Fin 1, buyer_name = None,
         status = lunas\<rparr>,
        \<lparr>sale_id = 2, sold_at = local_datetime 12 23 59 59, stock_item_id = None,
         item_name = ''b'', unit_price = Fin 1, qty = Fin 1, total_price = Fin 1, buyer_name = None,
         status = lunas\<rparr>,
        \<lparr>sale_id = 3, sold_at = local_datetime 9 23 59 59, stock_item_id = None,
         item_name = ''c'', unit_price = Fin 1, qty = Fin 1, total_price = Fin 1, buyer_name = None,
         status = lunas\<rparr>]" "[]"]
    C7_range_filter [of 13 12 "[]"
      "[\<lparr>expense_id = 1, bought_at = local_datetime 12 12 0 0, description = None,
         total_cost = Fin 7\<rparr>]"]
  by (simp add: local_datetime_def msPerDay_def)

text \<open>
  C9. When the store is configured and any one of the three snapshot requests fails,
  \<open>loadAll\<close> ends with the error set to the message of the first failed request in the
  order stock items, sales, expenses, with \<open>loading\<close> false, and with the three locally
  held collections exactly as they were before the call, whatever data the requests
  that succeeded returned.
\<close>

theorem C9_loadAll_failure:
  assumes "res_error stockRes \<noteq> None \<or> res_error salesRes \<noteq> None
             \<or> res_error expensesRes \<noteq> None"
  shows "st_error (loadAll True toNumber stockRes salesRes expensesRes st) =
           (case res_error stockRes of
              Some m \<Rightarrow> Some m
            | None \<Rightarrow> (case res_error salesRes of
                Some m \<Rightarrow> Some m
              | None \<Rightarrow> res_error expensesRes))
         \<and> st_error (loadAll True toNumber stockRes salesRes expensesRes st) \<noteq> None
         \<and> st_stockItems (loadAll True toNumber stockRes salesRes expensesRes st)
             = st_stockItems st
         \<and> st_sales (loadAll True toNumber stockRes salesRes expensesRes st) = st_sales st
         \<and> st_expenses (loadAll True toNumber stockRes salesRes expensesRes st)
             = st_expenses st
         \<and> st_loading (loadAll True toNumber stockRes salesRes expensesRes st) = False"
  using assms by (auto simp add: loadAll_def Let_def split: option.splits)

theorem C9_loadAll_failure_witness:
  "st_error (loadAll True (\<lambda>n. Fin (of_int n))
      \<lparr>res_data = Some [\<lparr>raw_stock_id = 1, raw_name = ''Gelang'', raw_price = 10000 :: int,
                          raw_stock = 5, raw_image_url = None, raw_created_at = 0\<rparr>],
       res_error = None\<rparr>
      \<lparr>res_data = None, res_error = Some ''permission denied for table sales''\<rparr>
      \<lparr>res_data = None, res_error = Some ''timeout''\<rparr>
      \<lparr>st_loading = True, st_error = None, st_stockItems = [], st_sales = [],
       st_expenses = []\<rparr>)
     = Some ''permission denied for table sales''
   \<and> st_stockItems (loadAll True (\<lambda>n. Fin (of_int n))
      \<lparr>res_data = Some [\<lparr>raw_stock_id = 1, raw_name = ''Gelang'', raw_price = 10000 :: int,
                          raw_stock = 5, raw_image_url = None, raw_created_at = 0\<rparr>],
       res_error = None\<rparr>
      \<lparr>res_data = None, res_error = Some ''permission denied for table sales''\<rparr>
      \<lparr>res_data = None, res_error = Some ''timeout''\<rparr>
      \<lparr>st_loading = True, st_error = None, st_stockItems = [], st_sales = [],
       st_expenses = []\<rparr>) = []"
  using C9_loadAll_failure [of
      "\<lparr>res_data = Some [\<lparr>raw_stock_id = 1, raw_name = ''Gelang'', raw_price = 10000::int,
                          raw_stock = 5, raw_image_url = None, raw_created_at = 0\<rparr>],
        res_error = None\<rparr>"
      "\<lparr>res_data = None, res_error = Some ''permission denied for table sales''\<rparr>"
      "\<lparr>res_data = None, res_error = Some ''timeout''\<rparr>"
      "\<lambda>n. Fin (of_int n)"
      "\<lparr>st_loading = True, st_error = None, st_stockItems = [], st_sales = [],
        st_expenses = []\<rparr>"]
  by simp

text \<open>
  C8. For every list of sales and of expenses, the merged feed \<open>transactions\<close> holds
  exactly the merged records (one sale entry per sale, one expense entry per expense),
  sorted non-increasing by date; among the entries of one timestamp the sales come
  first, in their input order, followed by the expenses in theirs, so that a sale entry
  always stands before an expense entry with the same timestamp.
\<close>

theorem C8_transactions_sorted_stable:
  "mset (transactions sales expenses) = mset (map sale_tx sales @ map expense_tx expenses)
   \<and> sorted_wrt (\<lambda>a b. date b \<le> date a) (transactions sales expenses)
   \<and> (\<forall>k. filter (\<lambda>t. date t = k) (transactions sales expenses)
            = map sale_tx (filter (\<lambda>s. sold_at s = k) sales)
              @ map expense_tx (filter (\<lambda>e. bought_at e = k) expenses))
   \<and> (\<forall>i j. i < length (transactions sales expenses)
          \<and> j < length (transactions sales expenses)
          \<and> tx_type (transactions sales expenses ! i) = TxSale
          \<and> tx_type (transactions sales expenses ! j) = TxExpense
          \<and> date (transactions sales expenses ! i) = date (transactions sales expenses ! j)
          \<longrightarrow> i < j)"
proof -
  let ?T = "transactions sales expenses"
  have members: "mset ?T = mset (map sale_tx sales @ map expense_tx expenses)"
    by (simp add: transactions_def)
  have sale_first: "i < j"
    if "i < length ?T" "j < length ?T" "tx_type (?T ! i) = TxSale"
      "tx_type (?T ! j) = TxExpense" "date (?T ! i) = date (?T ! j)" for i j
  proof (rule ccontr)
    assume "\<not> i < j"
    with that have "j < i"
      by (cases "i = j") auto
    with transactions_stable [of sales expenses] that show False
      by (auto simp add: sorted_wrt_iff_nth_less)
  qed
  from members transactions_descending transactions_same_date sale_first
  show ?thesis by blast
qed

theorem C8_transactions_sorted_stable_witness:
  "transactions
      [\<lparr>sale_id = 1, sold_at = 100, stock_item_id = Some 1, item_name = ''Gelang'',
        unit_price = Fin 10000, qty = Fin 3, total_price = Fin 30000, buyer_name = None,
        status = lunas\<rparr>]
      [\<lparr>expense_id = 1, bought_at = 100, description = None, total_cost = Fin 5000\<rparr>,
       \<lparr>expense_id = 2, bought_at = 200, description = Some ''Tali'', total_cost = Fin 700\<rparr>]
     = [expense_tx \<lparr>expense_id = 2, bought_at = 200, description = Some ''Tali'',
                    total_cost = Fin 700\<rparr>,
        sale_tx \<lparr>sale_id = 1, sold_at = 100, stock_item_id = Some 1, item_name = ''Gelang'',
                 unit_price = Fin 10000, qty = Fin 3, total_price = Fin 30000, buyer_name = None,
                 status = lunas\<rparr>,
        expense_tx \<lparr>expense_id = 1, bought_at = 100, description = None,
                    total_cost = Fin 5000\<rparr>]
   \<and> (1::nat) < 2"
  using C8_transactions_sorted_stable [of
      "[\<lparr>sale_id = 1, sold_at = 100, stock_item_id = Some 1, item_name = ''Gelang'',
         unit_price = Fin 10000, qty = Fin 3, total_price = Fin 30000, buyer_name = None,
         status = lunas\<rparr>]"
      "[\<lparr>expense_id = 1, bought_at = 100, description = None, total_cost = Fin 5000\<rparr>,
        \<lparr>expense_id = 2, bought_at = 200, description = Some ''Tali'', total_cost = Fin 700\<rparr>]"]
  by (simp add: transactions_def)

text \<open>
  C10, as stated, fails in its second half: a capital-injection row is inserted with
  status \<open>lunas\<close>, but the sale dialog edits it like any other sale. After a capital
  entry of 100000 into an empty database, saving the dialog of that row with the status
  set to \<open>belum_bayar\<close> (and its quantity and buyer unchanged) gives a snapshot whose only
  row is the capital injection and whose piutang is 100000.
\<close>

theorem C10_edited_capital_row_counterexample:
  "handleSubmitModal True 5 (Fin 100000) 99 None None
      \<lparr>tbl_stock_items = [], tbl_sales = [], stock_id_seq = 0, sales_id_seq = 0\<rparr>
     = (\<lparr>tbl_stock_items =
           [\<lparr>stock_id = 1, name = ''SYSTEM_MODAL_DONOTDELETE'', price = Fin 0, stock = Fin 0,
             image_url = None, created_at = 5\<rparr>],
         tbl_sales =
           [\<lparr>sale_id = 1, sold_at = 99, stock_item_id = Some 1,
             item_name = ''Modal / Dana Awal'', unit_price = Fin 100000, qty = Fin 1,
             total_price = Fin 100000, buyer_name = None, status = lunas\<rparr>],
         stock_id_seq = 1, sales_id_seq = 1\<rparr>, None)
   \<and> onUpdateSale
        [\<lparr>sale_id = 1, sold_at = 99, stock_item_id = Some 1,
          item_name = ''Modal / Dana Awal'', unit_price = Fin 100000, qty = Fin 1,
          total_price = Fin 100000, buyer_name = None, status = lunas\<rparr>]
        1 \<lparr>upd_qty = Some (Fin 1), upd_buyer_name = Some None, upd_status = Some belum_bayar\<rparr>
        None
        \<lparr>tbl_stock_items =
           [\<lparr>stock_id = 1, name = ''SYSTEM_MODAL_DONOTDELETE'', price = Fin 0, stock = Fin 0,
             image_url = None, created_at = 5\<rparr>],
         tbl_sales =
           [\<lparr>sale_id = 1, sold_at = 99, stock_item_id = Some 1,
             item_name = ''Modal / Dana Awal'', unit_price = Fin 100000, qty = Fin 1,
             total_price = Fin 100000, buyer_name = None, status = lunas\<rparr>],
         stock_id_seq = 1, sales_id_seq = 1\<rparr>
     = (\<lparr>tbl_stock_items =
           [\<lparr>stock_id = 1, name = ''SYSTEM_MODAL_DONOTDELETE'', price = Fin 0, stock = Fin 0,
             image_url = None, created_at = 5\<rparr>],
         tbl_sales =
           [\<lparr>sale_id = 1, sold_at = 99, stock_item_id = Some 1,
             item_name = ''Modal / Dana Awal'', unit_price = Fin 100000, qty = Fin 1,
             total_price = Fin 100000, buyer_name = None, status = belum_bayar\<rparr>],
         stock_id_seq = 1, sales_id_seq = 1\<rparr>, None)
   \<and> piutang (metrics
         [\<lparr>sale_id = 1, sold_at = 99, stock_item_id = Some 1,
           item_name = ''Modal / Dana Awal'', unit_price = Fin 100000, qty = Fin 1,
           total_price = Fin 100000, buyer_name = None, status = belum_bayar\<rparr>] []) = Fin 100000"
  by (simp add: handleSubmitModal_def getSystemModalId_def onUpdateSale_def metrics_def
      Let_def round_double_numeral)

text \<open>
  C10, amended. Whenever the capital-entry operation \<open>handleSubmitModal\<close> succeeds, the
  entered amount \<open>a\<close> is positive and exactly one row is appended to the sales table,
  with item name "Modal / Dana Awal", \<open>qty = Fin 1\<close>, \<open>unit_price = total_price = a\<close> and
  status \<open>lunas\<close>, so the piutang metric of the table is what it was before; whenever
  it fails, the sales table is unchanged. Consequently, for every snapshot whose
  capital-injection rows still carry the status they were inserted with, capital
  injections contribute nothing to piutang: it equals the piutang of the snapshot
  without its capital-injection rows.
\<close>

theorem C10_capital_entry_row:
  "(handleSubmitModal hasSupabaseEnv now amount modalDate stockInsertError insertError db
      = (db', None) \<longrightarrow>
      (\<exists>a row. amount = Fin a \<and> 0 < a
         \<and> tbl_sales db' = tbl_sales db @ [row]
         \<and> item_name row = ''Modal / Dana Awal'' \<and> qty row = Fin 1
         \<and> unit_price row = Fin a \<and> total_price row = Fin a \<and> status row = lunas
         \<and> sold_at row = modalDate
         \<and> piutang (metrics (tbl_sales db') expenses)
             = piutang (metrics (tbl_sales db) expenses)))
   \<and> (handleSubmitModal hasSupabaseEnv now amount modalDate stockInsertError insertError db
      = (db', Some msg) \<longrightarrow> tbl_sales db' = tbl_sales db)
   \<and> ((\<forall>s \<in> set sales. item_name s = ''Modal / Dana Awal'' \<longrightarrow> status s = lunas) \<longrightarrow>
        piutang (metrics sales expenses)
          = piutang (metrics (filter (\<lambda>s. item_name s \<noteq> ''Modal / Dana Awal'') sales)
              expenses))"
proof -
  have success: "\<exists>a row. amount = Fin a \<and> 0 < a
         \<and> tbl_sales db' = tbl_sales db @ [row]
         \<and> item_name row = ''Modal / Dana Awal'' \<and> qty row = Fin 1
         \<and> unit_price row = Fin a \<and> total_price row = Fin a \<and> status row = lunas
         \<and> sold_at row = modalDate
         \<and> piutang (metrics (tbl_sales db') expenses)
             = piutang (metrics (tbl_sales db) expenses)"
    if "handleSubmitModal hasSupabaseEnv now amount modalDate stockInsertError insertError db
          = (db', None)"
  proof -
    from that have "\<not> (\<not> is_finite amount \<or> js_le amount (Fin 0))"
      by (auto simp add: handleSubmitModal_def split: if_splits)
    then obtain a where "amount = Fin a" "0 < a"
      unfolding positive_amount_iff by blast
    with that show ?thesis
      by (auto simp add: handleSubmitModal_def getSystemModalId_def metrics_def Let_def
          split: if_splits option.splits list.splits prod.splits)
  qed
  have failure: "tbl_sales db' = tbl_sales db"
    if "handleSubmitModal hasSupabaseEnv now amount modalDate stockInsertError insertError db
          = (db', Some msg)"
    using that
    by (auto simp add: handleSubmitModal_def getSystemModalId_def Let_def
        split: if_splits option.splits list.splits prod.splits)
  have snapshot: "piutang (metrics sales expenses)
          = piutang (metrics (filter (\<lambda>s. item_name s \<noteq> ''Modal / Dana Awal'') sales)
              expenses)"
    if "\<forall>s \<in> set sales. item_name s = ''Modal / Dana Awal'' \<longrightarrow> status s = lunas"
  proof -
    have "filter (\<lambda>s. status s = belum_bayar) sales
            = filter (\<lambda>s. status s = belum_bayar)
                (filter (\<lambda>s. item_name s \<noteq> ''Modal / Dana Awal'') sales)"
      using that by (induction sales) auto
    then show ?thesis
      by (simp add: metrics_def Let_def)
  qed
  from success failure snapshot show ?thesis by blast
qed

theorem C10_capital_entry_row_witness:
  "handleSubmitModal True 5 (Fin 100000) 99 None None
      \<lparr>tbl_stock_items = [], tbl_sales = [], stock_id_seq = 0, sales_id_seq = 0\<rparr>
     = (\<lparr>tbl_stock_items =
           [\<lparr>stock_id = 1, name = ''SYSTEM_MODAL_DONOTDELETE'', price = Fin 0, stock = Fin 0,
             image_url = None, created_at = 5\<rparr>],
         tbl_sales =
           [\<lparr>sale_id = 1, sold_at = 99, stock_item_id = Some 1,
             item_name = ''Modal / Dana Awal'', unit_price = Fin 100000, qty = Fin 1,
             total_price = Fin 100000, buyer_name = None, status = lunas\<rparr>],
         stock_id_seq = 1, sales_id_seq = 1\<rparr>, None)
   \<and> piutang (metrics
         [\<lparr>sale_id = 1, sold_at = 99, stock_item_id = Some 1,
           item_name = ''Modal / Dana Awal'', unit_price = Fin 100000, qty = Fin 1,
           total_price = Fin 100000, buyer_name = None, status = lunas\<rparr>] []) = Fin 0"
  using C10_capital_entry_row [of True 5 "Fin 100000" 99 None None
      "\<lparr>tbl_stock_items = [], tbl_sales = [], stock_id_seq = 0, sales_id_seq = 0\<rparr>"
      "\<lparr>tbl_stock_items =
           [\<lparr>stock_id = 1, name = ''SYSTEM_MODAL_DONOTDELETE'', price = Fin 0, stock = Fin 0,
             image_url = None, created_at = 5\<rparr>],
         tbl_sales =
           [\<lparr>sale_id = 1, sold_at = 99, stock_item_id = Some 1,
             item_name = ''Modal / Dana Awal'', unit_price = Fin 100000, qty = Fin 1,
             total_price = Fin 100000, buyer_name = None, status = lunas\<rparr>],
         stock_id_seq = 1, sales_id_seq = 1\<rparr>" "[]"]
  by (simp add: handleSubmitModal_def getSystemModalId_def metrics_def Let_def)

text \<open>
  C3. The claim asks for exactly 30 entries in ascending date order, with sales dated
  outside the window ignored. \<open>chartData\<close> skips only the sales sold before the start of
  the window. As long as no sale is dated after today the claim holds
  (\<open>chartData_without_future_sales\<close>); but a sale \<open>f\<close> dated after today passes the test
  \<open>soldDate < start\<close>, its key is not in the map, and \<open>dailyMap.set\<close> appends an entry:
  after any sales not dated after today, \<open>f\<close> makes the series 31 entries long, the 30
  days of the window followed by the day of \<open>f\<close>.
\<close>

theorem C3_future_sale_adds_entry:
  assumes no_future: "\<forall>s \<in> set sales. sold_at s < startOfDay now + msPerDay"
    and future: "startOfDay now + msPerDay \<le> sold_at f"
  shows "map day (chartData now (sales @ [f]))
           = map (\<lambda>i. format_ymd now - 29 + i) [0..29] @ [format_ymd (sold_at f)]
         \<and> length (chartData now (sales @ [f])) = 31"
proof -
  let ?D = "format_ymd now"
  let ?start = "startOfDay (subDays now 29)"
  let ?init = "map (\<lambda>i. (?D - 29 + i, Fin 0)) [0..29]"
  let ?filled = "foldl (chart_add_sale ?start) ?init sales"
  let ?key = "format_ymd (sold_at f)"
  have chart: "chartData now xs
      = map (\<lambda>(d, a). \<lparr>day = d, day_amount = a\<rparr>) (foldl (chart_add_sale ?start) ?init xs)"
    for xs
    by (simp add: chartData_def Let_def dailyMap0_days)
  have "map fst ?filled = map day (chartData now sales)"
    unfolding chart by (simp add: case_prod_unfold o_def)
  with chartData_without_future_sales [OF no_future]
  have keys: "map fst ?filled = map (\<lambda>i. ?D - 29 + i) [0..29]"
    by simp
  have today: "startOfDay now = ?D * msPerDay"
    by (simp add: startOfDay_def format_ymd_def)
  from future have after: "?D + 1 \<le> ?key"
    by (simp add: format_ymd_ge_iff today algebra_simps)
  have not_skipped: "\<not> sold_at f < ?start"
    using future by (simp add: startOfDay_subDays today msPerDay_def)
  have "?key \<notin> set (map fst ?filled)"
    unfolding keys using after by auto
  then have new_key: "?key \<notin> fst ` set ?filled"
    by simp
  then have "map_get ?filled ?key = None"
    by (simp add: map_get_None_iff)
  with not_skipped new_key
  have "chart_add_sale ?start ?filled f
          = ?filled @ [(?key, js_add (Fin 0) (total_price f))]"
    by (simp add: chart_add_sale_def Let_def map_set_keys_new)
  then have "map day (chartData now (sales @ [f])) = map fst ?filled @ [?key]"
    unfolding chart by (simp add: case_prod_unfold o_def)
  then have days: "map day (chartData now (sales @ [f]))
      = map (\<lambda>i. ?D - 29 + i) [0..29] @ [?key]"
    by (simp only: keys)
  have "length (chartData now (sales @ [f])) = length (map day (chartData now (sales @ [f])))"
    by simp
  also have "\<dots> = 31"
    unfolding days by simp
  finally have "length (chartData now (sales @ [f])) = 31" .
  with days show ?thesis
    by simp
qed

text \<open>
  At day 30, after one sale of that day: a sale dated on day 31 gives 31 entries; and
  two sales dated on days 35 and 32 (in the order the snapshot lists them, newest first)
  give 32 entries, the last two out of order.
\<close>

theorem C3_future_sale_adds_entry_witness:
  "map day (chartData (30 * msPerDay + 5)
      ([\<lparr>sale_id = 1, sold_at = 30 * msPerDay + 1, stock_item_id = Some 1,
         item_name = ''Gelang'', unit_price = Fin 10000, qty = Fin 1, total_price = Fin 10000,
         buyer_name = None, status = lunas\<rparr>]
       @ [\<lparr>sale_id = 2, sold_at = 31 * msPerDay + 7, stock_item_id = Some 1,
         item_name = ''Gelang'', unit_price = Fin 10000, qty = Fin 2, total_price = Fin 20000,
         buyer_name = None, status = lunas\<rparr>]))
     = [1, 2, 3, 4, 5, 6, 7, 8, 9, 10, 11, 12, 13, 14, 15, 16, 17, 18, 19, 20, 21, 22, 23,
        24, 25, 26, 27, 28, 29, 30, 31]
   \<and> length (chartData (30 * msPerDay + 5)
      ([\<lparr>sale_id = 1, sold_at = 30 * msPerDay + 1, stock_item_id = Some 1,
         item_name = ''Gelang'', unit_price = Fin 10000, qty = Fin 1, total_price = Fin 10000,
         buyer_name = None, status = lunas\<rparr>]
       @ [\<lparr>sale_id = 2, sold_at = 31 * msPerDay + 7, stock_item_id = Some 1,
         item_name = ''Gelang'', unit_price = Fin 10000, qty = Fin 2, total_price = Fin 20000,
         buyer_name = None, status = lunas\<rparr>])) = 31
   \<and> map day (chartData (30 * msPerDay + 5)
      [\<lparr>sale_id = 2, sold_at = 35 * msPerDay + 7, stock_item_id = Some 1,
        item_name = ''Gelang'', unit_price = Fin 10000, qty = Fin 1, total_price = Fin 10000,
        buyer_name = None, status = lunas\<rparr>,
       \<lparr>sale_id = 1, sold_at = 32 * msPerDay + 7, stock_item_id = Some 1,
        item_name = ''Gelang'', unit_price = Fin 10000, qty = Fin 2, total_price = Fin 20000,
        buyer_name = None, status = lunas\<rparr>])
     = [1, 2, 3, 4, 5, 6, 7, 8, 9, 10, 11, 12, 13, 14, 15, 16, 17, 18, 19, 20, 21, 22, 23,
        24, 25, 26, 27, 28, 29, 30, 35, 32]"
proof -
  have no_future: "\<forall>s \<in> set
      [\<lparr>sale_id = 1, sold_at = 30 * msPerDay + 1, stock_item_id = Some 1,
        item_name = ''Gelang'', unit_price = Fin 10000, qty = Fin 1, total_price = Fin 10000,
        buyer_name = None, status = lunas\<rparr>].
      sold_at s < startOfDay (30 * msPerDay + 5) + msPerDay"
    by (simp add: startOfDay_def msPerDay_def)
  have future: "startOfDay (30 * msPerDay + 5) + msPerDay
      \<le> sold_at \<lparr>sale_id = 2, sold_at = 31 * msPerDay + 7, stock_item_id = Some 1,
         item_name = ''Gelang'', unit_price = Fin 10000, qty = Fin 2, total_price = Fin 20000,
         buyer_name = None, status = lunas\<rparr>"
    by (simp add: startOfDay_def msPerDay_def)
  have days: "map (\<lambda>i. format_ymd (30 * msPerDay + 5) - 29 + i) [0..29]
      = [1, 2, 3, 4, 5, 6, 7, 8, 9, 10, 11, 12, 13, 14, 15, 16, 17, 18, 19, 20, 21, 22,
         23, 24, 25, 26, 27, 28, 29, 30]"
    by code_simp
  have key: "format_ymd (31 * msPerDay + 7) = 31"
    by (simp add: format_ymd_def msPerDay_def)
  have two: "map day (chartData (30 * msPerDay + 5)
      [\<lparr>sale_id = 2, sold_at = 35 * msPerDay + 7, stock_item_id = Some 1,
        item_name = ''Gelang'', unit_price = Fin 10000, qty = Fin 1, total_price = Fin 10000,
        buyer_name = None, status = lunas\<rparr>,
       \<lparr>sale_id = 1, sold_at = 32 * msPerDay + 7, stock_item_id = Some 1,
        item_name = ''Gelang'', unit_price = Fin 10000, qty = Fin 2, total_price = Fin 20000,
        buyer_name = None, status = lunas\<rparr>])
     = [1, 2, 3, 4, 5, 6, 7, 8, 9, 10, 11, 12, 13, 14, 15, 16, 17, 18, 19, 20, 21, 22, 23,
        24, 25, 26, 27, 28, 29, 30, 35, 32]"
    unfolding chartData_days by code_simp
  from C3_future_sale_adds_entry [OF no_future future] days key two
  show ?thesis
    by simp
qed

end
